theory Spec2Isabelle
  imports Main "HOL-Library.Sublist"
begin

section \<open>The disk-swap backup pipeline of backup.py\<close>

text \<open>
  The orchestrator of \<^verbatim>\<open>backup.py\<close> imports a pool, loads its key, runs
  zfs-autobackup, sets the pool read-only and exports it. Everything it does is an effect:
  a line handed to the logger, a message handed to the mailer, an external command, a run
  of the backup engine. The model threads one list of such events, in the order in which
  they happen, through every function, and returns a raised Python exception as the left
  summand of the result.
\<close>

subsection \<open>Configuration (the fields of AppConfig and PoolConfig the pipeline reads)\<close>

record email_config =
  send_autobackup_output :: bool

record pool_config =
  passphrase :: "string option"
  autobackup_parameters :: "string list"

record app_config =
  pools :: "string \<rightharpoonup> pool_config"
  email :: "email_config option"

subsection \<open>Results and exceptions\<close>

text \<open>\<^verbatim>\<open>subprocess.CompletedProcess\<close>, with the attributes the pipeline reads.\<close>

record completed_process =
  args :: "string list"
  returncode :: int
  stdout :: string
  stderr :: string

text \<open>
  The classes of the exceptions that the standard library and the backup engine raise in
  a run. \<^verbatim>\<open>SystemExit\<close> (raised, for instance, by the argument parser of the engine)
  and \<^verbatim>\<open>KeyboardInterrupt\<close> derive from \<^verbatim>\<open>BaseException\<close> only; the others are
  subclasses of \<^verbatim>\<open>Exception\<close> (\<^verbatim>\<open>UnicodeDecodeError\<close> through
  \<^verbatim>\<open>ValueError\<close>).
\<close>

datatype exn_class =
    OSError
  | UnicodeDecodeError
  | ValueError
  | RuntimeError
  | SystemExit
  | KeyboardInterrupt

fun is_exception_class :: "exn_class \<Rightarrow> bool" where
  "is_exception_class SystemExit = False"
| "is_exception_class KeyboardInterrupt = False"
| "is_exception_class c = True"

text \<open>
  The exceptions of a run: \<^verbatim>\<open>CalledProcessError\<close> (raised by \<^verbatim>\<open>subprocess.run\<close>
  under \<^verbatim>\<open>check=True\<close> for a nonzero exit, with the command, the exit code and the
  two streams), the \<^verbatim>\<open>UnboundLocalError\<close> of reading a local variable that was never
  assigned, which carries the variable's name and, as Python's \<^verbatim>\<open>__context__\<close>, the
  exception that was being handled when it was raised, and an exception of one of the
  classes above with its message.
\<close>

datatype exn =
    CalledProcessError "string list" int string string
  | UnboundLocalError string exn
  | Raised exn_class string

text \<open>\<^verbatim>\<open>isinstance(e, Exception)\<close>: what an \<^verbatim>\<open>except Exception\<close> clause catches.\<close>

fun is_exception :: "exn \<Rightarrow> bool" where
  "is_exception (CalledProcessError cmd rc out err) = True"
| "is_exception (UnboundLocalError v e) = True"
| "is_exception (Raised c msg) = is_exception_class c"

subsection \<open>The world outside the program\<close>

text \<open>
  What \<^verbatim>\<open>subprocess.run\<close> meets. \<open>Exited rc out err\<close>: the process ran and exited
  with the code \<open>rc\<close>, and its two captured streams were decoded (\<^verbatim>\<open>text=True\<close>) to
  \<open>out\<close> and \<open>err\<close>. \<open>Raises c msg\<close>: \<^verbatim>\<open>subprocess.run\<close> raises an exception of
  class \<open>c\<close> that is not the \<^verbatim>\<open>CalledProcessError\<close> of \<^verbatim>\<open>check=True\<close>:
  \<^verbatim>\<open>OSError\<close> when the executable cannot be started, \<^verbatim>\<open>UnicodeDecodeError\<close> when
  the process ran and exited but a captured stream is not text, \<^verbatim>\<open>KeyboardInterrupt\<close>
  when the wait is interrupted.
\<close>

datatype proc_outcome =
    Exited int string string
  | Raises exn_class string

text \<open>
  What \<^verbatim>\<open>ZfsAutobackup(args).run()\<close> does: it returns its count of failed datasets,
  having written to the two redirected streams, or it raises an exception of some class
  (\<^verbatim>\<open>SystemExit\<close> when its argument parser rejects the parameters).
\<close>

datatype engine_outcome =
    Finished int string string
  | Crashed exn_class string

text \<open>
  The world of one run. \<open>proc\<close> answers an argument vector and an optional input,
  \<open>engine\<close> answers a parameter list; \<open>exn_str\<close> is Python's \<^verbatim>\<open>str(e)\<close> and
  \<open>format_exc\<close> is \<^verbatim>\<open>traceback.format_exc()\<close> inside the handler of \<open>e\<close>: both
  belong to the standard library and are taken as parameters.
\<close>

record world =
  proc :: "string list \<Rightarrow> string option \<Rightarrow> proc_outcome"
  engine :: "string list \<Rightarrow> engine_outcome"
  exn_str :: "exn \<Rightarrow> string"
  format_exc :: "exn \<Rightarrow> string"

subsection \<open>Events\<close>

datatype category = Info | Error | Exception

datatype event =
    Log string
  | LogError string
  | Notify category string
  | Command "string list" "string option"
  | Backup "string list"

text \<open>
  Modelled from the spec: \<^verbatim>\<open>log_util.Logging\<close> is not part of the sources. A call of
  \<^verbatim>\<open>logger.log\<close> or \<^verbatim>\<open>logger.error\<close> is recorded as an event and does not raise.
\<close>

definition log :: "string \<Rightarrow> event list \<Rightarrow> event list" where
  "log message t = t @ [Log message]"

definition log_error :: "string \<Rightarrow> event list \<Rightarrow> event list" where
  "log_error message t = t @ [LogError message]"

text \<open>
  Modelled from the spec: \<^verbatim>\<open>mail_util\<close> is not part of the sources. By section 4.3
  of the specification each of the three functions takes the message, the notification
  configuration (possibly absent) and the logger, delivers a message of its category and
  never raises. A call is recorded as a notification of its category with its message.
\<close>

definition mail :: "string \<Rightarrow> email_config option \<Rightarrow> event list \<Rightarrow> event list" where
  "mail message email_cfg t = t @ [Notify Info message]"

definition mail_error :: "string \<Rightarrow> email_config option \<Rightarrow> event list \<Rightarrow> event list" where
  "mail_error message email_cfg t = t @ [Notify Error message]"

definition mail_exception :: "string \<Rightarrow> email_config option \<Rightarrow> event list \<Rightarrow> event list" where
  "mail_exception message email_cfg t = t @ [Notify Exception message]"

subsection \<open>The command runner\<close>

text \<open>
  \<^verbatim>\<open>subprocess.run(command, input=input_data, text=True, check=True, ...)\<close>: the
  invocation is an event; under \<^verbatim>\<open>check=True\<close> a nonzero exit is raised as
  \<^verbatim>\<open>CalledProcessError\<close>.
\<close>

definition subprocess_run ::
  "world \<Rightarrow> event list \<Rightarrow> string list \<Rightarrow> string option \<Rightarrow> (exn + completed_process) \<times> event list" where
  "subprocess_run w t command input_data =
     (case proc w command input_data of
        Exited rc out err \<Rightarrow>
          (if rc \<noteq> 0 then Inl (CalledProcessError command rc out err)
           else Inr \<lparr>args = command, returncode = rc, stdout = out, stderr = err\<rparr>,
           t @ [Command command input_data])
      | Raises c msg \<Rightarrow> (Inl (Raised c msg), t @ [Command command input_data]))"

text \<open>
  \<^verbatim>\<open>run_command\<close>: its one handler is \<^verbatim>\<open>except subprocess.CalledProcessError\<close>;
  every other exception of \<^verbatim>\<open>subprocess.run\<close> leaves it.
\<close>

definition run_command ::
  "world \<Rightarrow> event list \<Rightarrow> string list \<Rightarrow> string option \<Rightarrow> (exn + completed_process) \<times> event list" where
  "run_command w logger command input_data =
     (case subprocess_run w logger command input_data of
        (Inr r, t) \<Rightarrow> (Inr r, t)
      | (Inl e, t) \<Rightarrow>
          (case e of
             CalledProcessError cmd rc out err \<Rightarrow>
               (Inr \<lparr>args = cmd, returncode = rc, stdout = out, stderr = err\<rparr>,
                log_error (''An error occurred: '' @ exn_str w e) t)
           | _ \<Rightarrow> (Inl e, t)))"

definition import_pool ::
  "world \<Rightarrow> string \<Rightarrow> event list \<Rightarrow> (exn + completed_process) \<times> event list" where
  "import_pool w pool logger = run_command w logger [''zpool'', ''import'', pool, ''-N''] None"

definition export_pool ::
  "world \<Rightarrow> string \<Rightarrow> event list \<Rightarrow> (exn + completed_process) \<times> event list" where
  "export_pool w pool logger = run_command w logger [''zpool'', ''export'', pool] None"

definition decrypt_pool ::
  "world \<Rightarrow> string \<Rightarrow> string \<Rightarrow> event list \<Rightarrow> (exn + completed_process) \<times> event list" where
  "decrypt_pool w pool pass logger = run_command w logger [''zfs'', ''load-key'', pool] (Some pass)"

definition set_pool_readonly ::
  "world \<Rightarrow> string \<Rightarrow> event list \<Rightarrow> (exn + completed_process) \<times> event list" where
  "set_pool_readonly w pool logger = run_command w logger [''zfs'', ''set'', ''readonly=on'', pool] None"

subsection \<open>The backup invoker\<close>

definition run_zfs_autobackup ::
  "world \<Rightarrow> string list \<Rightarrow> event list \<Rightarrow> (exn + bool \<times> string \<times> string) \<times> event list" where
  "run_zfs_autobackup w params logger =
     (case engine w params of
        Finished failed_datasets out err \<Rightarrow> (Inr (failed_datasets = 0, out, err), logger @ [Backup params])
      | Crashed c msg \<Rightarrow> (Inl (Raised c msg), logger @ [Backup params]))"

subsection \<open>The pipeline\<close>

text \<open>Python's \<^verbatim>\<open>sep.join(xs)\<close>.\<close>

fun join :: "string \<Rightarrow> string list \<Rightarrow> string" where
  "join sep [] = []"
| "join sep [x] = x"
| "join sep (x # y # ys) = x @ sep @ join sep (y # ys)"

text \<open>
  \<^verbatim>\<open>decrypt_and_backup\<close> is a \<^verbatim>\<open>try\<close> with one \<^verbatim>\<open>except Exception\<close> clause.
  Its body is modelled in two parts: lines 56 to 73 (backup, report, read-only), and lines
  49 to 54 (load the key), which either return early or go on with the first part. An
  exception leaves the body together with the values of the locals \<^verbatim>\<open>stdout\<close> and
  \<^verbatim>\<open>stderr\<close> at that moment: \<open>None\<close> while line 57 has not assigned them.
\<close>

definition backup_and_set_readonly ::
  "world \<Rightarrow> string \<Rightarrow> pool_config \<Rightarrow> app_config \<Rightarrow> event list \<Rightarrow>
     (exn \<times> (string \<times> string) option + string option) \<times> event list" where
  "backup_and_set_readonly w device_label pool_cfg config logger =
     (case run_zfs_autobackup w (autobackup_parameters pool_cfg)
             (log (''Starting ZFS-Autobackup for pool '' @ device_label
                     @ '' with parameters:\<newline>zfs-autobackup ''
                     @ join '' '' (autobackup_parameters pool_cfg)) logger) of
        (Inl e, t) \<Rightarrow> (Inl (e, None), t)
      | (Inr (success, out, err), t) \<Rightarrow>
          (case set_pool_readonly w device_label
                  (log (''Setting pool '' @ device_label @ '' to read-only'')
                     (if \<not> success \<or> err \<noteq> [] then
                        (case email config of
                           None \<Rightarrow> log ''ZFS autobackup error! Disk will not be exported automatically.'' t
                         | Some email_cfg \<Rightarrow>
                             if send_autobackup_output email_cfg
                             then mail_error (''ZFS autobackup error! Disk will not be exported automatically:\<newline>\<newline>''
                                               @ (if err \<noteq> [] then err else out)) (email config) t
                             else mail_error ''ZFS autobackup error! Disk will not be exported automatically. Check logs for details.''
                                    (email config) t)
                      else if out \<noteq> [] then log out t
                      else t)) of
             (Inl e, t) \<Rightarrow> (Inl (e, Some (out, err)), t)
           | (Inr result, t) \<Rightarrow>
               if returncode result \<noteq> 0
               then (Inr None,
                     mail_error (''Failed to set pool readonly. Disk will not be exported automatically.\<newline>\<newline>Error:\<newline>''
                                   @ stderr result @ ''\<newline>\<newline>Backup was successful:\<newline>'' @ out
                                   @ ''\<newline>\<newline>'' @ err) (email config) t)
               else (Inr (Some out), t)))"

definition decrypt_and_backup_try ::
  "world \<Rightarrow> string \<Rightarrow> pool_config \<Rightarrow> app_config \<Rightarrow> event list \<Rightarrow>
     (exn \<times> (string \<times> string) option + string option) \<times> event list" where
  "decrypt_and_backup_try w device_label pool_cfg config logger =
     (case passphrase pool_cfg of
        None \<Rightarrow> backup_and_set_readonly w device_label pool_cfg config logger
      | Some pass \<Rightarrow>
          if pass = [] then backup_and_set_readonly w device_label pool_cfg config logger
          else
            (case decrypt_pool w device_label pass (log (''Decrypting pool '' @ device_label) logger) of
               (Inl e, t) \<Rightarrow> (Inl (e, None), t)
             | (Inr result, t) \<Rightarrow>
                 if returncode result \<noteq> 0
                 then (Inr None,
                       mail_error (''Failed to decrypt pool. Backup not yet run.\<newline>\<newline>Error:\<newline>''
                                     @ stderr result) (email config) t)
                 else backup_and_set_readonly w device_label pool_cfg config t))"

text \<open>
  The \<^verbatim>\<open>except Exception as e\<close> clause of \<^verbatim>\<open>decrypt_and_backup\<close> (lines 74 to 76),
  applied to what the body did. It formats its message from \<^verbatim>\<open>e\<close>, \<^verbatim>\<open>stdout\<close> and
  \<^verbatim>\<open>stderr\<close> before it calls \<^verbatim>\<open>mail_exception\<close>. Reading \<^verbatim>\<open>stdout\<close> while it
  is unassigned raises \<^verbatim>\<open>UnboundLocalError\<close> out of the handler, and the mailer is not
  called. An exception that is not an instance of \<^verbatim>\<open>Exception\<close> is not caught.
\<close>

definition decrypt_and_backup_except ::
  "world \<Rightarrow> app_config \<Rightarrow> (exn \<times> (string \<times> string) option + string option) \<times> event list \<Rightarrow>
     (exn + string option) \<times> event list" where
  "decrypt_and_backup_except w config body =
     (case body of
        (Inr captured_output, t) \<Rightarrow> (Inr captured_output, t)
      | (Inl (e, locals), t) \<Rightarrow>
          if \<not> is_exception e then (Inl e, t)
          else
            (case locals of
               None \<Rightarrow> (Inl (UnboundLocalError ''stdout'' e), t)
             | Some (out, err) \<Rightarrow>
                 (Inr None,
                  mail_exception (''An unexpected error occurred. Backup may have failed. Please investigate.\<newline>\<newline>Error:\<newline>''
                                    @ exn_str w e @ ''\<newline>\<newline>Backup output:\<newline>'' @ out
                                    @ ''\<newline>\<newline>'' @ err) (email config) t)))"

definition decrypt_and_backup ::
  "world \<Rightarrow> string \<Rightarrow> pool_config \<Rightarrow> app_config \<Rightarrow> event list \<Rightarrow> (exn + string option) \<times> event list" where
  "decrypt_and_backup w device_label pool_cfg config logger =
     decrypt_and_backup_except w config (decrypt_and_backup_try w device_label pool_cfg config logger)"

text \<open>
  \<^verbatim>\<open>import_decrypt_backup_export\<close>, lines 26 to 41: what follows the call of
  \<^verbatim>\<open>decrypt_and_backup\<close>, given what that call did. An exception of the call passes
  through; \<^verbatim>\<open>None\<close> returns; a captured output goes on to the export.
\<close>

definition export_and_report ::
  "world \<Rightarrow> string \<Rightarrow> app_config \<Rightarrow> (exn + string option) \<times> event list \<Rightarrow> (exn + unit) \<times> event list" where
  "export_and_report w device_label config backed_up =
     (case backed_up of
        (Inl e, t) \<Rightarrow> (Inl e, t)
      | (Inr None, t) \<Rightarrow> (Inr (), t)
      | (Inr (Some captured_output), t) \<Rightarrow>
          (case export_pool w device_label (log (''Exporting '' @ device_label) t) of
             (Inl e, t) \<Rightarrow> (Inl e, t)
           | (Inr result, t) \<Rightarrow>
               if returncode result \<noteq> 0
               then (Inr (),
                     mail_error (''Failed to export pool.\<newline>\<newline>Error:\<newline>'' @ stderr result)
                       (email config) t)
               else
                 (case email config of
                    None \<Rightarrow>
                      (Inr (),
                       log (''Backup finished. You can safely unplug the disk '' @ device_label @ '' now.'') t)
                  | Some email_cfg \<Rightarrow>
                      if send_autobackup_output email_cfg
                      then (Inr (),
                            mail (''Backup finished. You can safely unplug the disk '' @ device_label
                                    @ '' now.\<newline>\<newline>ZFS-Autobackup output:\<newline>'' @ captured_output)
                              (email config) t)
                      else (Inr (),
                            mail (''Backup finished. You can safely unplug the disk '' @ device_label @ '' now.'')
                              (email config) t))))"

text \<open>The body of the \<^verbatim>\<open>try\<close> of \<^verbatim>\<open>import_decrypt_backup_export\<close> (lines 20 to 41).\<close>

definition import_decrypt_backup_export_try ::
  "world \<Rightarrow> string \<Rightarrow> pool_config \<Rightarrow> app_config \<Rightarrow> event list \<Rightarrow> (exn + unit) \<times> event list" where
  "import_decrypt_backup_export_try w device_label pool_cfg config logger =
     (case import_pool w device_label (log (''Importing pool '' @ device_label) logger) of
        (Inl e, t) \<Rightarrow> (Inl e, t)
      | (Inr result, t) \<Rightarrow>
          if returncode result \<noteq> 0
          then (Inr (),
                mail_error (''Failed to import pool. Backup not yet run.\<newline>\<newline>Error:\<newline>''
                              @ stderr result) (email config) t)
          else export_and_report w device_label config
                 (decrypt_and_backup w device_label pool_cfg config t))"

text \<open>
  Its \<^verbatim>\<open>except Exception as e\<close> clause (lines 43 and 44); an exception that is not an
  instance of \<^verbatim>\<open>Exception\<close> is not caught and leaves the function.
\<close>

definition import_decrypt_backup_export_except ::
  "world \<Rightarrow> app_config \<Rightarrow> (exn + unit) \<times> event list \<Rightarrow> (exn + unit) \<times> event list" where
  "import_decrypt_backup_export_except w config body =
     (case body of
        (Inr u, t) \<Rightarrow> (Inr u, t)
      | (Inl e, t) \<Rightarrow>
          if \<not> is_exception e then (Inl e, t)
          else
            (Inr (),
             mail_error (''An unexpected error occurred. Backup may have failed. Please investigate.\<newline>\<newline>Error:\<newline>''
                           @ exn_str w e @ ''\<newline>'' @ format_exc w e) (email config) t))"

definition import_decrypt_backup_export ::
  "world \<Rightarrow> string \<Rightarrow> app_config \<Rightarrow> event list \<Rightarrow> (exn + unit) \<times> event list" where
  "import_decrypt_backup_export w device_label config logger =
     (case pools config device_label of
        None \<Rightarrow>
          (Inr (),
           mail (''Plugged in disk '' @ device_label
                   @ '' that is not matching any configuration. You can unplug it again safely.'')
             (email config) logger)
      | Some pool_cfg \<Rightarrow>
          import_decrypt_backup_export_except w config
            (import_decrypt_backup_export_try w device_label pool_cfg config logger))"

subsection \<open>Reading a trace\<close>

fun commands :: "event list \<Rightarrow> (string list \<times> string option) list" where
  "commands [] = []"
| "commands (Command argv inp # t) = (argv, inp) # commands t"
| "commands (_ # t) = commands t"

fun notifications :: "event list \<Rightarrow> (category \<times> string) list" where
  "notifications [] = []"
| "notifications (Notify c m # t) = (c, m) # notifications t"
| "notifications (_ # t) = notifications t"

fun backups :: "event list \<Rightarrow> string list list" where
  "backups [] = []"
| "backups (Backup params # t) = params # backups t"
| "backups (_ # t) = backups t"

subsection \<open>Reading the world\<close>

definition exit_code :: "proc_outcome \<Rightarrow> int option" where
  "exit_code r = (case r of Exited rc out err \<Rightarrow> Some rc | Raises c msg \<Rightarrow> None)"

definition import_succeeds :: "world \<Rightarrow> string \<Rightarrow> bool" where
  "import_succeeds w device_label =
     (exit_code (proc w [''zpool'', ''import'', device_label, ''-N''] None) = Some 0)"

text \<open>The key is not needed, or \<^verbatim>\<open>zfs load-key\<close> exits with 0.\<close>

definition decrypt_passes :: "world \<Rightarrow> string \<Rightarrow> pool_config \<Rightarrow> bool" where
  "decrypt_passes w device_label pool_cfg =
     (case passphrase pool_cfg of
        None \<Rightarrow> True
      | Some pass \<Rightarrow>
          pass = [] \<or> exit_code (proc w [''zfs'', ''load-key'', device_label] (Some pass)) = Some 0)"

text \<open>The engine returns and \<^verbatim>\<open>zfs set readonly=on\<close> exits with 0.\<close>

definition readonly_set :: "world \<Rightarrow> string \<Rightarrow> pool_config \<Rightarrow> bool" where
  "readonly_set w device_label pool_cfg =
     (case engine w (autobackup_parameters pool_cfg) of
        Crashed c msg \<Rightarrow> False
      | Finished n out err \<Rightarrow>
          exit_code (proc w [''zfs'', ''set'', ''readonly=on'', device_label] None) = Some 0)"

text \<open>The run gets as far as calling the backup engine.\<close>

definition reaches_backup :: "world \<Rightarrow> string \<Rightarrow> app_config \<Rightarrow> bool" where
  "reaches_backup w device_label config =
     (case pools config device_label of
        None \<Rightarrow> False
      | Some pool_cfg \<Rightarrow> import_succeeds w device_label \<and> decrypt_passes w device_label pool_cfg)"

definition captured :: "'a + string option \<Rightarrow> bool" where
  "captured r = (case r of Inr (Some out) \<Rightarrow> True | _ \<Rightarrow> False)"

text \<open>The events of a run that gets to the backup engine, up to that point.\<close>

definition before_backup :: "string \<Rightarrow> pool_config \<Rightarrow> event list" where
  "before_backup device_label pool_cfg =
     [Log (''Importing pool '' @ device_label),
      Command [''zpool'', ''import'', device_label, ''-N''] None] @
     (case passphrase pool_cfg of
        None \<Rightarrow> []
      | Some pass \<Rightarrow>
          if pass = [] then []
          else [Log (''Decrypting pool '' @ device_label),
                Command [''zfs'', ''load-key'', device_label] (Some pass)])"

text \<open>What lines 58 to 66 emit, given what the engine returned.\<close>

definition backup_report :: "app_config \<Rightarrow> int \<Rightarrow> string \<Rightarrow> string \<Rightarrow> event list" where
  "backup_report config failed out err =
     (if failed \<noteq> 0 \<or> err \<noteq> [] then
        [case email config of
           None \<Rightarrow> Log ''ZFS autobackup error! Disk will not be exported automatically.''
         | Some email_cfg \<Rightarrow>
             Notify Error
               (if send_autobackup_output email_cfg
                then ''ZFS autobackup error! Disk will not be exported automatically:\<newline>\<newline>''
                       @ (if err \<noteq> [] then err else out)
                else ''ZFS autobackup error! Disk will not be exported automatically. Check logs for details.'')]
      else if out \<noteq> [] then [Log out] else [])"

text \<open>
  The events of a run in which the engine returns, up to and including the invocation of
  \<^verbatim>\<open>zfs set readonly=on\<close>.
\<close>

definition until_readonly ::
  "string \<Rightarrow> pool_config \<Rightarrow> app_config \<Rightarrow> int \<Rightarrow> string \<Rightarrow> string \<Rightarrow> event list" where
  "until_readonly device_label pool_cfg config failed out err =
     before_backup device_label pool_cfg @
     [Log (''Starting ZFS-Autobackup for pool '' @ device_label
             @ '' with parameters:\<newline>zfs-autobackup ''
             @ join '' '' (autobackup_parameters pool_cfg)),
      Backup (autobackup_parameters pool_cfg)] @
     backup_report config failed out err @
     [Log (''Setting pool '' @ device_label @ '' to read-only''),
      Command [''zfs'', ''set'', ''readonly=on'', device_label] None]"

text \<open>The last event of a run that ends well (lines 36 to 41).\<close>

definition completion :: "app_config \<Rightarrow> string \<Rightarrow> string \<Rightarrow> event" where
  "completion config device_label captured_output =
     (case email config of
        None \<Rightarrow> Log (''Backup finished. You can safely unplug the disk '' @ device_label @ '' now.'')
      | Some email_cfg \<Rightarrow>
          Notify Info
            (if send_autobackup_output email_cfg
             then ''Backup finished. You can safely unplug the disk '' @ device_label
                    @ '' now.\<newline>\<newline>ZFS-Autobackup output:\<newline>'' @ captured_output
             else ''Backup finished. You can safely unplug the disk '' @ device_label @ '' now.''))"

text \<open>What follows the first occurrence of an event in a trace.\<close>

definition events_after :: "event \<Rightarrow> event list \<Rightarrow> event list" where
  "events_after e t = tl (dropWhile (\<lambda>x. x \<noteq> e) t)"

text \<open>A trace as seen by someone who cannot read what is written to a process's input.\<close>

fun redact :: "event \<Rightarrow> event" where
  "redact (Command argv (Some inp)) = Command argv (Some [])"
| "redact e = e"

subsection \<open>Sample worlds and configurations\<close>

fun sample_str :: "exn \<Rightarrow> string" where
  "sample_str (CalledProcessError cmd rc out err) = ''Command returned non-zero exit status.''"
| "sample_str (UnboundLocalError v e) = ''cannot access local variable '' @ v"
| "sample_str (Raised c msg) = msg"

definition sample_world :: "(string list \<Rightarrow> proc_outcome) \<Rightarrow> engine_outcome \<Rightarrow> world" where
  "sample_world p e =
     \<lparr>proc = (\<lambda>argv inp. p argv), engine = (\<lambda>params. e),
      exn_str = sample_str, format_exc = (\<lambda>e. ''Traceback (most recent call last)'')\<rparr>"

text \<open>Every command exits with 0, except those whose argument vector contains \<open>word\<close>.\<close>

definition except_for :: "string \<Rightarrow> proc_outcome \<Rightarrow> string list \<Rightarrow> proc_outcome" where
  "except_for word r argv = (if word \<in> set argv then r else Exited 0 [] [])"

definition sample_config :: "string option \<Rightarrow> email_config option \<Rightarrow> app_config" where
  "sample_config pass em =
     \<lparr>pools = [''tank'' \<mapsto> \<lparr>passphrase = pass, autobackup_parameters = [''offsite'', ''tank'']\<rparr>],
      email = em\<rparr>"

section \<open>Auxiliary facts\<close>

lemmas stage_defs = import_pool_def export_pool_def decrypt_pool_def set_pool_readonly_def
  run_zfs_autobackup_def log_def mail_def mail_error_def mail_exception_def

lemmas pipeline_defs = import_decrypt_backup_export_def import_decrypt_backup_export_except_def
  import_decrypt_backup_export_try_def export_and_report_def decrypt_and_backup_def
  decrypt_and_backup_except_def decrypt_and_backup_try_def backup_and_set_readonly_def

lemmas sample_defs = sample_world_def sample_config_def except_for_def

lemma exit_code_simps [simp]:
  "exit_code (Exited rc out err) = Some rc" "exit_code (Raises c m) = None"
  by (simp_all add: exit_code_def)

lemma exit_code_SomeD: "exit_code r = Some rc \<Longrightarrow> \<exists>out err. r = Exited rc out err"
  by (cases r) simp_all

lemma proc_outcome_three [case_names raises failed ok]:
  obtains (raises) c m where "r = Raises c m"
  | (failed) rc out err where "r = Exited rc out err" and "rc \<noteq> 0"
  | (ok) out err where "r = Exited 0 out err"
  by (cases r) auto

lemma commands_append [simp]: "commands (xs @ ys) = commands xs @ commands ys"
  by (induction xs rule: commands.induct) simp_all

lemma notifications_append [simp]: "notifications (xs @ ys) = notifications xs @ notifications ys"
  by (induction xs rule: notifications.induct) simp_all

lemma backups_append [simp]: "backups (xs @ ys) = backups xs @ backups ys"
  by (induction xs rule: backups.induct) simp_all

text \<open>The command runner, by what the process does.\<close>

lemma run_command_eq:
  "run_command w t c i =
     (case proc w c i of
        Exited rc out err \<Rightarrow>
          (Inr \<lparr>args = c, returncode = rc, stdout = out, stderr = err\<rparr>,
           t @ Command c i #
             (if rc \<noteq> 0
              then [LogError (''An error occurred: '' @ exn_str w (CalledProcessError c rc out err))]
              else []))
      | Raises cls m \<Rightarrow> (Inl (Raised cls m), t @ [Command c i]))"
  by (simp add: run_command_def subprocess_run_def log_error_def split: proc_outcome.split)

text \<open>The three ways in which a configured run gets to the backup engine.\<close>

lemma reaches_backup_cases [consumes 2, case_names absent empty decrypted]:
  assumes "pools config device_label = Some pool_cfg"
    and "reaches_backup w device_label config"
  obtains
    (absent) iout ierr where
      "proc w [''zpool'', ''import'', device_label, ''-N''] None = Exited 0 iout ierr"
      "passphrase pool_cfg = None"
  | (empty) iout ierr where
      "proc w [''zpool'', ''import'', device_label, ''-N''] None = Exited 0 iout ierr"
      "passphrase pool_cfg = Some []"
  | (decrypted) pass iout ierr kout kerr where
      "proc w [''zpool'', ''import'', device_label, ''-N''] None = Exited 0 iout ierr"
      "passphrase pool_cfg = Some pass" "pass \<noteq> []"
      "proc w [''zfs'', ''load-key'', device_label] (Some pass) = Exited 0 kout kerr"
proof -
  from assms have i: "exit_code (proc w [''zpool'', ''import'', device_label, ''-N''] None) = Some 0"
    and d: "decrypt_passes w device_label pool_cfg"
    by (simp_all add: reaches_backup_def import_succeeds_def)
  from exit_code_SomeD [OF i] obtain iout ierr
    where imp: "proc w [''zpool'', ''import'', device_label, ''-N''] None = Exited 0 iout ierr"
    by blast
  show thesis
  proof (cases "passphrase pool_cfg")
    case None
    with imp show thesis by (rule absent)
  next
    case (Some pass)
    show thesis
    proof (cases "pass = []")
      case True
      with Some imp show thesis by (simp add: empty)
    next
      case False
      with d Some have "exit_code (proc w [''zfs'', ''load-key'', device_label] (Some pass)) = Some 0"
        by (simp add: decrypt_passes_def)
      from exit_code_SomeD [OF this] obtain kout kerr
        where "proc w [''zfs'', ''load-key'', device_label] (Some pass) = Exited 0 kout kerr"
        by blast
      with imp Some False show thesis by (rule decrypted)
    qed
  qed
qed

text \<open>The commands of a run, stage by stage.\<close>

lemma backup_and_set_readonly_observed:
  "commands (snd (backup_and_set_readonly w device_label pool_cfg config t)) =
     commands t @
     (case engine w (autobackup_parameters pool_cfg) of
        Crashed cls msg \<Rightarrow> []
      | Finished n out err \<Rightarrow> [([''zfs'', ''set'', ''readonly=on'', device_label], None)])
   \<and> backups (snd (backup_and_set_readonly w device_label pool_cfg config t)) =
       backups t @ [autobackup_parameters pool_cfg]
   \<and> captured (fst (backup_and_set_readonly w device_label pool_cfg config t)) =
       readonly_set w device_label pool_cfg"
proof (cases "engine w (autobackup_parameters pool_cfg)")
  case (Crashed cls msg)
  then show ?thesis
    by (simp add: backup_and_set_readonly_def stage_defs readonly_set_def captured_def)
next
  case (Finished n out err)
  show ?thesis
  proof (cases "proc w [''zfs'', ''set'', ''readonly=on'', device_label] None" rule: proc_outcome_three)
    case raises
    with Finished show ?thesis
      by (cases "email config")
         (simp_all add: backup_and_set_readonly_def stage_defs run_command_eq readonly_set_def captured_def)
  next
    case failed
    with Finished show ?thesis
      by (cases "email config")
         (simp_all add: backup_and_set_readonly_def stage_defs run_command_eq readonly_set_def captured_def)
  next
    case ok
    with Finished show ?thesis
      by (cases "email config")
         (simp_all add: backup_and_set_readonly_def stage_defs run_command_eq readonly_set_def captured_def)
  qed
qed

lemma backup_and_set_readonly_commands:
  "commands (snd (backup_and_set_readonly w device_label pool_cfg config t)) =
     commands t @
     (case engine w (autobackup_parameters pool_cfg) of
        Crashed cls msg \<Rightarrow> []
      | Finished n out err \<Rightarrow> [([''zfs'', ''set'', ''readonly=on'', device_label], None)])"
  using backup_and_set_readonly_observed [of w device_label pool_cfg config t] by blast

lemma backup_and_set_readonly_captured:
  "captured (fst (backup_and_set_readonly w device_label pool_cfg config t)) =
     readonly_set w device_label pool_cfg"
  using backup_and_set_readonly_observed [of w device_label pool_cfg config t] by blast

lemma decrypt_and_backup_try_commands:
  "commands (snd (decrypt_and_backup_try w device_label pool_cfg config t)) =
     commands t @
     (case passphrase pool_cfg of
        None \<Rightarrow> []
      | Some pass \<Rightarrow> if pass = [] then [] else [([''zfs'', ''load-key'', device_label], Some pass)]) @
     (if decrypt_passes w device_label pool_cfg then
        (case engine w (autobackup_parameters pool_cfg) of
           Crashed cls msg \<Rightarrow> []
         | Finished n out err \<Rightarrow> [([''zfs'', ''set'', ''readonly=on'', device_label], None)])
      else [])"
  by (simp add: decrypt_and_backup_try_def decrypt_passes_def decrypt_pool_def log_def mail_error_def
      run_command_eq backup_and_set_readonly_commands split: option.split proc_outcome.split)

lemma decrypt_and_backup_try_captured:
  "captured (fst (decrypt_and_backup_try w device_label pool_cfg config t)) =
     (decrypt_passes w device_label pool_cfg \<and> readonly_set w device_label pool_cfg)"
  by (simp add: decrypt_and_backup_try_def decrypt_passes_def decrypt_pool_def log_def mail_error_def
      run_command_eq backup_and_set_readonly_captured split: option.split proc_outcome.split)
     (simp add: captured_def)

lemma decrypt_and_backup_except_commands:
  "commands (snd (decrypt_and_backup_except w config body)) = commands (snd body)"
  by (simp add: decrypt_and_backup_except_def mail_exception_def
      split: prod.split sum.split option.split)

lemma decrypt_and_backup_except_captured:
  "captured (fst (decrypt_and_backup_except w config body)) = captured (fst body)"
  by (simp add: decrypt_and_backup_except_def captured_def
      split: prod.split sum.split option.split)

lemma export_and_report_commands:
  "commands (snd (export_and_report w device_label config backed_up)) =
     commands (snd backed_up) @
     (if captured (fst backed_up) then [([''zpool'', ''export'', device_label], None)] else [])"
proof (cases backed_up)
  case (Pair r t)
  show ?thesis
  proof (cases r)
    case (Inl e)
    with Pair show ?thesis by (simp add: export_and_report_def captured_def)
  next
    case (Inr c)
    with Pair show ?thesis
      by (cases c)
         (simp_all add: export_and_report_def captured_def export_pool_def run_command_eq
            log_def mail_def mail_error_def split: option.split proc_outcome.split)
  qed
qed

lemma import_decrypt_backup_export_except_commands:
  "commands (snd (import_decrypt_backup_export_except w config body)) = commands (snd body)"
  by (simp add: import_decrypt_backup_export_except_def mail_error_def split: prod.split sum.split)

lemma commands_run:
  "commands (snd (import_decrypt_backup_export w device_label config [])) =
     (case pools config device_label of
        None \<Rightarrow> []
      | Some pool_cfg \<Rightarrow>
          ([''zpool'', ''import'', device_label, ''-N''], None) #
          (if import_succeeds w device_label then
             (case passphrase pool_cfg of
                None \<Rightarrow> []
              | Some pass \<Rightarrow> if pass = [] then [] else [([''zfs'', ''load-key'', device_label], Some pass)]) @
             (if decrypt_passes w device_label pool_cfg then
                (case engine w (autobackup_parameters pool_cfg) of
                   Crashed cls msg \<Rightarrow> []
                 | Finished n out err \<Rightarrow> [([''zfs'', ''set'', ''readonly=on'', device_label], None)]) @
                (if readonly_set w device_label pool_cfg then [([''zpool'', ''export'', device_label], None)] else [])
              else [])
           else []))"
  by (simp add: import_decrypt_backup_export_def import_decrypt_backup_export_except_commands
      import_decrypt_backup_export_try_def import_pool_def run_command_eq log_def mail_def mail_error_def
      export_and_report_commands decrypt_and_backup_def decrypt_and_backup_except_commands
      decrypt_and_backup_except_captured decrypt_and_backup_try_commands decrypt_and_backup_try_captured
      import_succeeds_def
      split: option.split proc_outcome.split)

text \<open>The backups of a run.\<close>

lemma backup_and_set_readonly_backups:
  "backups (snd (backup_and_set_readonly w device_label pool_cfg config t)) =
     backups t @ [autobackup_parameters pool_cfg]"
  using backup_and_set_readonly_observed [of w device_label pool_cfg config t] by blast

lemma decrypt_and_backup_try_backups:
  "backups (snd (decrypt_and_backup_try w device_label pool_cfg config t)) =
     backups t @ (if decrypt_passes w device_label pool_cfg then [autobackup_parameters pool_cfg] else [])"
  by (simp add: decrypt_and_backup_try_def decrypt_passes_def decrypt_pool_def log_def mail_error_def
      run_command_eq backup_and_set_readonly_backups split: option.split proc_outcome.split)

lemma decrypt_and_backup_except_backups:
  "backups (snd (decrypt_and_backup_except w config body)) = backups (snd body)"
  by (simp add: decrypt_and_backup_except_def mail_exception_def
      split: prod.split sum.split option.split)

lemma export_and_report_backups:
  "backups (snd (export_and_report w device_label config backed_up)) = backups (snd backed_up)"
proof (cases backed_up)
  case (Pair r t)
  show ?thesis
  proof (cases r)
    case (Inl e)
    with Pair show ?thesis by (simp add: export_and_report_def)
  next
    case (Inr c)
    with Pair show ?thesis
      by (cases c)
         (simp_all add: export_and_report_def export_pool_def run_command_eq
            log_def mail_def mail_error_def split: option.split proc_outcome.split)
  qed
qed

lemma import_decrypt_backup_export_except_backups:
  "backups (snd (import_decrypt_backup_export_except w config body)) = backups (snd body)"
  by (simp add: import_decrypt_backup_export_except_def mail_error_def split: prod.split sum.split)

text \<open>The engine is called exactly in the runs that \<open>reaches_backup\<close> describes.\<close>

lemma backups_run:
  "backups (snd (import_decrypt_backup_export w device_label config [])) =
     (if reaches_backup w device_label config
      then [autobackup_parameters (the (pools config device_label))] else [])"
  by (simp add: import_decrypt_backup_export_def import_decrypt_backup_export_except_backups
      import_decrypt_backup_export_try_def import_pool_def run_command_eq log_def mail_def mail_error_def
      export_and_report_backups decrypt_and_backup_def decrypt_and_backup_except_backups
      decrypt_and_backup_try_backups import_succeeds_def reaches_backup_def
      split: option.split proc_outcome.split)

text \<open>A run that gets to the backup engine, from there on.\<close>

lemma run_from_backup:
  assumes "pools config device_label = Some pool_cfg"
    and "reaches_backup w device_label config"
  shows "import_decrypt_backup_export w device_label config [] =
           import_decrypt_backup_export_except w config
             (export_and_report w device_label config
                (decrypt_and_backup_except w config
                   (backup_and_set_readonly w device_label pool_cfg config
                      (before_backup device_label pool_cfg))))"
  using assms
proof (cases rule: reaches_backup_cases)
  case absent
  with assms(1) show ?thesis
    by (simp add: import_decrypt_backup_export_def import_decrypt_backup_export_try_def
        decrypt_and_backup_def decrypt_and_backup_try_def import_pool_def run_command_eq
        log_def before_backup_def)
next
  case empty
  with assms(1) show ?thesis
    by (simp add: import_decrypt_backup_export_def import_decrypt_backup_export_try_def
        decrypt_and_backup_def decrypt_and_backup_try_def import_pool_def run_command_eq
        log_def before_backup_def)
next
  case decrypted
  with assms(1) show ?thesis
    by (simp add: import_decrypt_backup_export_def import_decrypt_backup_export_try_def
        decrypt_and_backup_def decrypt_and_backup_try_def import_pool_def decrypt_pool_def
        run_command_eq log_def before_backup_def)
qed

lemma events_after_backup:
  "events_after (Backup params) (before_backup device_label pool_cfg @ Log s # Backup params # rest) = rest"
  by (simp add: events_after_def before_backup_def split: option.split)

lemma events_after_append:
  "e \<notin> set xs \<Longrightarrow> events_after e (xs @ ys) = events_after e ys"
  by (induction xs) (auto simp add: events_after_def)

lemma before_backup_simps [simp]:
  "notifications (before_backup device_label pool_cfg) = []"
  "backups (before_backup device_label pool_cfg) = []"
  "Command [''zfs'', ''set'', ''readonly=on'', device_label] None \<notin> set (before_backup device_label pool_cfg)"
  "Command [''zpool'', ''export'', device_label] None \<notin> set (before_backup device_label pool_cfg)"
  by (simp_all add: before_backup_def split: option.split)

text \<open>The runs in which the engine returns, one by one.\<close>

lemma backup_and_set_readonly_finished:
  assumes "engine w (autobackup_parameters pool_cfg) = Finished failed out err"
  shows "backup_and_set_readonly w device_label pool_cfg config (before_backup device_label pool_cfg) =
           (case proc w [''zfs'', ''set'', ''readonly=on'', device_label] None of
              Raises cls msg \<Rightarrow>
                (Inl (Raised cls msg, Some (out, err)),
                 until_readonly device_label pool_cfg config failed out err)
            | Exited rc rout rerr \<Rightarrow>
                if rc \<noteq> 0
                then (Inr None,
                      until_readonly device_label pool_cfg config failed out err @
                      [LogError (''An error occurred: '' @ exn_str w
                         (CalledProcessError [''zfs'', ''set'', ''readonly=on'', device_label] rc rout rerr)),
                       Notify Error
                         (''Failed to set pool readonly. Disk will not be exported automatically.\<newline>\<newline>Error:\<newline>''
                            @ rerr @ ''\<newline>\<newline>Backup was successful:\<newline>'' @ out
                            @ ''\<newline>\<newline>'' @ err)])
                else (Inr (Some out), until_readonly device_label pool_cfg config failed out err))"
proof (cases "proc w [''zfs'', ''set'', ''readonly=on'', device_label] None" rule: proc_outcome_three)
  case raises
  with assms show ?thesis
    by (cases "email config"; cases "failed \<noteq> 0 \<or> err \<noteq> []")
       (simp_all add: backup_and_set_readonly_def stage_defs run_command_eq
          until_readonly_def backup_report_def)
next
  case failed
  with assms show ?thesis
    by (cases "email config"; cases "failed \<noteq> 0 \<or> err \<noteq> []")
       (simp_all add: backup_and_set_readonly_def stage_defs run_command_eq
          until_readonly_def backup_report_def)
next
  case ok
  with assms show ?thesis
    by (cases "email config"; cases "failed \<noteq> 0 \<or> err \<noteq> []")
       (simp_all add: backup_and_set_readonly_def stage_defs run_command_eq
          until_readonly_def backup_report_def)
qed

lemma run_readonly_raises:
  assumes "pools config device_label = Some pool_cfg"
    and "reaches_backup w device_label config"
    and "engine w (autobackup_parameters pool_cfg) = Finished failed out err"
    and "proc w [''zfs'', ''set'', ''readonly=on'', device_label] None = Raises cls msg"
  shows "import_decrypt_backup_export w device_label config [] =
           (if is_exception_class cls then
              (Inr (),
               until_readonly device_label pool_cfg config failed out err @
               [Notify Exception
                  (''An unexpected error occurred. Backup may have failed. Please investigate.\<newline>\<newline>Error:\<newline>''
                     @ exn_str w (Raised cls msg) @ ''\<newline>\<newline>Backup output:\<newline>'' @ out
                     @ ''\<newline>\<newline>'' @ err)])
            else
              (Inl (Raised cls msg), until_readonly device_label pool_cfg config failed out err))"
  using assms(4)
  by (simp add: run_from_backup [OF assms(1,2)] backup_and_set_readonly_finished [OF assms(3)]
      import_decrypt_backup_export_except_def export_and_report_def decrypt_and_backup_except_def
      mail_exception_def)

lemma run_readonly_failed:
  assumes "pools config device_label = Some pool_cfg"
    and "reaches_backup w device_label config"
    and "engine w (autobackup_parameters pool_cfg) = Finished failed out err"
    and "proc w [''zfs'', ''set'', ''readonly=on'', device_label] None = Exited rc rout rerr"
    and "rc \<noteq> 0"
  shows "import_decrypt_backup_export w device_label config [] =
           (Inr (),
            until_readonly device_label pool_cfg config failed out err @
            [LogError (''An error occurred: '' @ exn_str w
               (CalledProcessError [''zfs'', ''set'', ''readonly=on'', device_label] rc rout rerr)),
             Notify Error
               (''Failed to set pool readonly. Disk will not be exported automatically.\<newline>\<newline>Error:\<newline>''
                  @ rerr @ ''\<newline>\<newline>Backup was successful:\<newline>'' @ out
                  @ ''\<newline>\<newline>'' @ err)])"
  using assms(4,5)
  by (simp add: run_from_backup [OF assms(1,2)] backup_and_set_readonly_finished [OF assms(3)]
      import_decrypt_backup_export_except_def export_and_report_def decrypt_and_backup_except_def)

lemma run_export_raises:
  assumes "pools config device_label = Some pool_cfg"
    and "reaches_backup w device_label config"
    and "engine w (autobackup_parameters pool_cfg) = Finished failed out err"
    and "proc w [''zfs'', ''set'', ''readonly=on'', device_label] None = Exited 0 rout rerr"
    and "proc w [''zpool'', ''export'', device_label] None = Raises cls msg"
  shows "import_decrypt_backup_export w device_label config [] =
           (if is_exception_class cls then
              (Inr (),
               until_readonly device_label pool_cfg config failed out err @
               [Log (''Exporting '' @ device_label),
                Command [''zpool'', ''export'', device_label] None,
                Notify Error
                  (''An unexpected error occurred. Backup may have failed. Please investigate.\<newline>\<newline>Error:\<newline>''
                     @ exn_str w (Raised cls msg) @ ''\<newline>'' @ format_exc w (Raised cls msg))])
            else
              (Inl (Raised cls msg),
               until_readonly device_label pool_cfg config failed out err @
               [Log (''Exporting '' @ device_label),
                Command [''zpool'', ''export'', device_label] None]))"
  using assms(4,5)
  by (simp add: run_from_backup [OF assms(1,2)] backup_and_set_readonly_finished [OF assms(3)]
      import_decrypt_backup_export_except_def export_and_report_def decrypt_and_backup_except_def
      export_pool_def run_command_eq log_def mail_error_def)

lemma run_export_failed:
  assumes "pools config device_label = Some pool_cfg"
    and "reaches_backup w device_label config"
    and "engine w (autobackup_parameters pool_cfg) = Finished failed out err"
    and "proc w [''zfs'', ''set'', ''readonly=on'', device_label] None = Exited 0 rout rerr"
    and "proc w [''zpool'', ''export'', device_label] None = Exited rc eout eerr"
    and "rc \<noteq> 0"
  shows "import_decrypt_backup_export w device_label config [] =
           (Inr (),
            until_readonly device_label pool_cfg config failed out err @
            [Log (''Exporting '' @ device_label),
             Command [''zpool'', ''export'', device_label] None,
             LogError (''An error occurred: '' @ exn_str w
               (CalledProcessError [''zpool'', ''export'', device_label] rc eout eerr)),
             Notify Error (''Failed to export pool.\<newline>\<newline>Error:\<newline>'' @ eerr)])"
  using assms(4-6)
  by (simp add: run_from_backup [OF assms(1,2)] backup_and_set_readonly_finished [OF assms(3)]
      import_decrypt_backup_export_except_def export_and_report_def decrypt_and_backup_except_def
      export_pool_def run_command_eq log_def mail_error_def)

lemma run_exported:
  assumes "pools config device_label = Some pool_cfg"
    and "reaches_backup w device_label config"
    and "engine w (autobackup_parameters pool_cfg) = Finished failed out err"
    and "proc w [''zfs'', ''set'', ''readonly=on'', device_label] None = Exited 0 rout rerr"
    and "proc w [''zpool'', ''export'', device_label] None = Exited 0 eout eerr"
  shows "import_decrypt_backup_export w device_label config [] =
           (Inr (),
            until_readonly device_label pool_cfg config failed out err @
            [Log (''Exporting '' @ device_label),
             Command [''zpool'', ''export'', device_label] None,
             completion config device_label out])"
proof (cases "email config")
  case None
  with assms(4,5) show ?thesis
    by (simp add: run_from_backup [OF assms(1,2)] backup_and_set_readonly_finished [OF assms(3)]
        import_decrypt_backup_export_except_def export_and_report_def decrypt_and_backup_except_def
        export_pool_def run_command_eq log_def completion_def)
next
  case (Some email_cfg)
  with assms(4,5) show ?thesis
    by (cases "send_autobackup_output email_cfg")
       (simp_all add: run_from_backup [OF assms(1,2)] backup_and_set_readonly_finished [OF assms(3)]
          import_decrypt_backup_export_except_def export_and_report_def decrypt_and_backup_except_def
          export_pool_def run_command_eq log_def mail_def completion_def)
qed

text \<open>Reading the events up to the read-only command.\<close>

lemma backup_report_simps [simp]:
  "commands (backup_report config failed out err) = []"
  "backups (backup_report config failed out err) = []"
  "filter (\<lambda>n. fst n = Info) (notifications (backup_report config failed out err)) = []"
  "filter (\<lambda>n. fst n = Exception) (notifications (backup_report config failed out err)) = []"
  "filter (\<lambda>n. fst n = Error \<and> prefix ''Failed to set pool readonly.'' (snd n))
     (notifications (backup_report config failed out err)) = []"
  "Backup params \<notin> set (backup_report config failed out err)"
  "Command argv inp \<notin> set (backup_report config failed out err)"
  by (simp_all add: backup_report_def split: option.split)

lemma until_readonly_simps [simp]:
  "backups (until_readonly device_label pool_cfg config failed out err) = [autobackup_parameters pool_cfg]"
  "notifications (until_readonly device_label pool_cfg config failed out err) =
     notifications (backup_report config failed out err)"
  "until_readonly device_label pool_cfg config failed out err \<noteq> []"
  by (simp_all add: until_readonly_def)

lemma events_after_backup_until_readonly:
  "events_after (Backup (autobackup_parameters pool_cfg))
     (until_readonly device_label pool_cfg config failed out err @ rest) =
   backup_report config failed out err @
   [Log (''Setting pool '' @ device_label @ '' to read-only''),
    Command [''zfs'', ''set'', ''readonly=on'', device_label] None] @ rest"
  by (simp add: until_readonly_def events_after_backup)

lemma events_after_readonly_until_readonly:
  "events_after (Command [''zfs'', ''set'', ''readonly=on'', device_label] None)
     (until_readonly device_label pool_cfg config failed out err @ rest) = rest"
proof -
  have "events_after (Command [''zfs'', ''set'', ''readonly=on'', device_label] None)
          (until_readonly device_label pool_cfg config failed out err @ rest) =
        events_after (Command [''zfs'', ''set'', ''readonly=on'', device_label] None)
          ((before_backup device_label pool_cfg @
            [Log (''Starting ZFS-Autobackup for pool '' @ device_label
                    @ '' with parameters:\<newline>zfs-autobackup ''
                    @ join '' '' (autobackup_parameters pool_cfg)),
             Backup (autobackup_parameters pool_cfg)] @
            backup_report config failed out err @
            [Log (''Setting pool '' @ device_label @ '' to read-only'')]) @
           Command [''zfs'', ''set'', ''readonly=on'', device_label] None # rest)"
    by (simp add: until_readonly_def)
  also have "\<dots> = events_after (Command [''zfs'', ''set'', ''readonly=on'', device_label] None)
                    (Command [''zfs'', ''set'', ''readonly=on'', device_label] None # rest)"
    by (rule events_after_append) simp
  also have "\<dots> = rest"
    by (simp add: events_after_def)
  finally show ?thesis .
qed

text \<open>The runs that end before the engine returns.\<close>

lemma run_import_raises:
  assumes "pools config device_label = Some pool_cfg"
    and "proc w [''zpool'', ''import'', device_label, ''-N''] None = Raises cls msg"
  shows "import_decrypt_backup_export w device_label config [] =
           (if is_exception_class cls then
              (Inr (),
               [Log (''Importing pool '' @ device_label),
                Command [''zpool'', ''import'', device_label, ''-N''] None,
                Notify Error
                  (''An unexpected error occurred. Backup may have failed. Please investigate.\<newline>\<newline>Error:\<newline>''
                     @ exn_str w (Raised cls msg) @ ''\<newline>'' @ format_exc w (Raised cls msg))])
            else
              (Inl (Raised cls msg),
               [Log (''Importing pool '' @ device_label),
                Command [''zpool'', ''import'', device_label, ''-N''] None]))"
  using assms
  by (simp add: import_decrypt_backup_export_def import_decrypt_backup_export_except_def
      import_decrypt_backup_export_try_def import_pool_def run_command_eq log_def mail_error_def)

lemma run_import_failed:
  assumes "pools config device_label = Some pool_cfg"
    and "proc w [''zpool'', ''import'', device_label, ''-N''] None = Exited rc out err"
    and "rc \<noteq> 0"
  shows "import_decrypt_backup_export w device_label config [] =
           (Inr (),
            [Log (''Importing pool '' @ device_label),
             Command [''zpool'', ''import'', device_label, ''-N''] None,
             LogError (''An error occurred: '' @ exn_str w
               (CalledProcessError [''zpool'', ''import'', device_label, ''-N''] rc out err)),
             Notify Error (''Failed to import pool. Backup not yet run.\<newline>\<newline>Error:\<newline>'' @ err)])"
  using assms
  by (simp add: import_decrypt_backup_export_def import_decrypt_backup_export_except_def
      import_decrypt_backup_export_try_def import_pool_def run_command_eq log_def mail_error_def)

lemma run_decrypt_raises:
  assumes "pools config device_label = Some pool_cfg"
    and "proc w [''zpool'', ''import'', device_label, ''-N''] None = Exited 0 iout ierr"
    and "passphrase pool_cfg = Some pass" and "pass \<noteq> []"
    and "proc w [''zfs'', ''load-key'', device_label] (Some pass) = Raises cls msg"
  shows "import_decrypt_backup_export w device_label config [] =
           (if is_exception_class cls then
              (Inr (),
               [Log (''Importing pool '' @ device_label),
                Command [''zpool'', ''import'', device_label, ''-N''] None,
                Log (''Decrypting pool '' @ device_label),
                Command [''zfs'', ''load-key'', device_label] (Some pass),
                Notify Error
                  (''An unexpected error occurred. Backup may have failed. Please investigate.\<newline>\<newline>Error:\<newline>''
                     @ exn_str w (UnboundLocalError ''stdout'' (Raised cls msg)) @ ''\<newline>''
                     @ format_exc w (UnboundLocalError ''stdout'' (Raised cls msg)))])
            else
              (Inl (Raised cls msg),
               [Log (''Importing pool '' @ device_label),
                Command [''zpool'', ''import'', device_label, ''-N''] None,
                Log (''Decrypting pool '' @ device_label),
                Command [''zfs'', ''load-key'', device_label] (Some pass)]))"
  using assms
  by (simp add: import_decrypt_backup_export_def import_decrypt_backup_export_except_def
      import_decrypt_backup_export_try_def export_and_report_def decrypt_and_backup_def
      decrypt_and_backup_except_def decrypt_and_backup_try_def import_pool_def decrypt_pool_def
      run_command_eq log_def mail_error_def)

lemma run_decrypt_failed:
  assumes "pools config device_label = Some pool_cfg"
    and "proc w [''zpool'', ''import'', device_label, ''-N''] None = Exited 0 iout ierr"
    and "passphrase pool_cfg = Some pass" and "pass \<noteq> []"
    and "proc w [''zfs'', ''load-key'', device_label] (Some pass) = Exited rc kout kerr"
    and "rc \<noteq> 0"
  shows "import_decrypt_backup_export w device_label config [] =
           (Inr (),
            [Log (''Importing pool '' @ device_label),
             Command [''zpool'', ''import'', device_label, ''-N''] None,
             Log (''Decrypting pool '' @ device_label),
             Command [''zfs'', ''load-key'', device_label] (Some pass),
             LogError (''An error occurred: '' @ exn_str w
               (CalledProcessError [''zfs'', ''load-key'', device_label] rc kout kerr)),
             Notify Error (''Failed to decrypt pool. Backup not yet run.\<newline>\<newline>Error:\<newline>'' @ kerr)])"
  using assms
  by (simp add: import_decrypt_backup_export_def import_decrypt_backup_export_except_def
      import_decrypt_backup_export_try_def export_and_report_def decrypt_and_backup_def
      decrypt_and_backup_except_def decrypt_and_backup_try_def import_pool_def decrypt_pool_def
      run_command_eq log_def mail_error_def)

text \<open>
  The engine raises: \<^verbatim>\<open>stdout\<close> is unassigned when the inner handler formats its
  message, so the \<^verbatim>\<open>UnboundLocalError\<close> reaches the outer handler. An exception that
  is not an instance of \<^verbatim>\<open>Exception\<close> passes both handlers.
\<close>

lemma run_engine_crashed:
  assumes "pools config device_label = Some pool_cfg"
    and "reaches_backup w device_label config"
    and "engine w (autobackup_parameters pool_cfg) = Crashed cls msg"
  shows "import_decrypt_backup_export w device_label config [] =
           (if is_exception_class cls then
              (Inr (),
               before_backup device_label pool_cfg @
               [Log (''Starting ZFS-Autobackup for pool '' @ device_label
                       @ '' with parameters:\<newline>zfs-autobackup ''
                       @ join '' '' (autobackup_parameters pool_cfg)),
                Backup (autobackup_parameters pool_cfg),
                Notify Error
                  (''An unexpected error occurred. Backup may have failed. Please investigate.\<newline>\<newline>Error:\<newline>''
                     @ exn_str w (UnboundLocalError ''stdout'' (Raised cls msg)) @ ''\<newline>''
                     @ format_exc w (UnboundLocalError ''stdout'' (Raised cls msg)))])
            else
              (Inl (Raised cls msg),
               before_backup device_label pool_cfg @
               [Log (''Starting ZFS-Autobackup for pool '' @ device_label
                       @ '' with parameters:\<newline>zfs-autobackup ''
                       @ join '' '' (autobackup_parameters pool_cfg)),
                Backup (autobackup_parameters pool_cfg)]))"
  using assms(3)
  by (simp add: run_from_backup [OF assms(1,2)] import_decrypt_backup_export_except_def
      export_and_report_def decrypt_and_backup_except_def backup_and_set_readonly_def
      run_zfs_autobackup_def log_def mail_error_def)

text \<open>Every run that gets to the engine begins in the same way.\<close>

lemma run_begins_with_backup:
  assumes "pools config device_label = Some pool_cfg"
    and "reaches_backup w device_label config"
  shows "\<exists>rest. snd (import_decrypt_backup_export w device_label config []) =
           before_backup device_label pool_cfg @
           [Log (''Starting ZFS-Autobackup for pool '' @ device_label
                   @ '' with parameters:\<newline>zfs-autobackup ''
                   @ join '' '' (autobackup_parameters pool_cfg)),
            Backup (autobackup_parameters pool_cfg)] @ rest"
proof (cases "engine w (autobackup_parameters pool_cfg)")
  case (Crashed cls msg)
  from run_engine_crashed [OF assms this] show ?thesis
    by (cases "is_exception_class cls") simp_all
next
  case (Finished failed out err)
  note eng = this
  show ?thesis
  proof (cases "proc w [''zfs'', ''set'', ''readonly=on'', device_label] None" rule: proc_outcome_three)
    case (raises cls msg)
    from run_readonly_raises [OF assms eng this] show ?thesis
      by (cases "is_exception_class cls") (simp_all add: until_readonly_def)
  next
    case failed
    from run_readonly_failed [OF assms eng this] show ?thesis
      by (simp add: until_readonly_def)
  next
    case ok
    note ro = this
    show ?thesis
    proof (cases "proc w [''zpool'', ''export'', device_label] None" rule: proc_outcome_three)
      case (raises cls msg)
      from run_export_raises [OF assms eng ro this] show ?thesis
        by (cases "is_exception_class cls") (simp_all add: until_readonly_def)
    next
      case failed
      from run_export_failed [OF assms eng ro this] show ?thesis
        by (simp add: until_readonly_def)
    next
      case ok
      from run_exported [OF assms eng ro this] show ?thesis
        by (simp add: until_readonly_def)
    qed
  qed
qed

lemma until_readonly_export [simp]:
  "Command [''zpool'', ''export'', device_label] None
     \<notin> set (until_readonly device_label pool_cfg config failed out err)"
  by (simp add: until_readonly_def)


lemma events_after_backup_until_readonly_only:
  "events_after (Backup (autobackup_parameters pool_cfg))
     (until_readonly device_label pool_cfg config failed out err) =
   backup_report config failed out err @
   [Log (''Setting pool '' @ device_label @ '' to read-only''),
    Command [''zfs'', ''set'', ''readonly=on'', device_label] None]"
  using events_after_backup_until_readonly [of pool_cfg device_label config failed out err "[]"]
  by simp

section \<open>Properties\<close>

text \<open>
  C6. A device identifier that the configuration does not map sends exactly one Info
  notification, which says that the device matches no configuration and can be unplugged,
  and runs no command and no backup before the run ends.
\<close>

theorem unknown_device_only_informs:
  assumes "pools config device_label = None"
  shows "import_decrypt_backup_export w device_label config [] =
           (Inr (), [Notify Info (''Plugged in disk '' @ device_label
              @ '' that is not matching any configuration. You can unplug it again safely.'')])
         \<and> commands (snd (import_decrypt_backup_export w device_label config [])) = []
         \<and> backups (snd (import_decrypt_backup_export w device_label config [])) = []
         \<and> map fst (notifications (snd (import_decrypt_backup_export w device_label config []))) = [Info]"
  using assms by (simp add: import_decrypt_backup_export_def mail_def)

theorem unknown_device_only_informs_witness:
  "pools (sample_config None None) ''diskA'' = None
   \<and> import_decrypt_backup_export (sample_world (\<lambda>argv. Exited 0 [] []) (Finished 0 [] []))
       ''diskA'' (sample_config None None) [] =
     (Inr (), [Notify Info
        ''Plugged in disk diskA that is not matching any configuration. You can unplug it again safely.''])"
proof -
  have h: "pools (sample_config None None) ''diskA'' = None"
    by (simp add: sample_config_def)
  from unknown_device_only_informs [OF h] show ?thesis
    using h by simp
qed

text \<open>
  C7. When the import command exits with a nonzero code, the run consists of the import
  and one Error notification that carries the import's stderr: no key is loaded, no backup
  is run, the pool is neither set read-only nor exported. The first command of every
  configured run is \<^verbatim>\<open>zpool import <device> -N\<close>.
\<close>

theorem failed_import_stops_the_run:
  assumes "pools config device_label = Some pool_cfg"
  shows "take 1 (commands (snd (import_decrypt_backup_export w device_label config []))) =
           [([''zpool'', ''import'', device_label, ''-N''], None)]
         \<and> (\<forall>rc out err.
              proc w [''zpool'', ''import'', device_label, ''-N''] None = Exited rc out err \<and> rc \<noteq> 0 \<longrightarrow>
              snd (import_decrypt_backup_export w device_label config []) =
                [Log (''Importing pool '' @ device_label),
                 Command [''zpool'', ''import'', device_label, ''-N''] None,
                 LogError (''An error occurred: '' @ exn_str w
                   (CalledProcessError [''zpool'', ''import'', device_label, ''-N''] rc out err)),
                 Notify Error (''Failed to import pool. Backup not yet run.\<newline>\<newline>Error:\<newline>'' @ err)]
              \<and> commands (snd (import_decrypt_backup_export w device_label config [])) =
                  [([''zpool'', ''import'', device_label, ''-N''], None)]
              \<and> backups (snd (import_decrypt_backup_export w device_label config [])) = []
              \<and> notifications (snd (import_decrypt_backup_export w device_label config [])) =
                  [(Error, ''Failed to import pool. Backup not yet run.\<newline>\<newline>Error:\<newline>'' @ err)])"
proof -
  have "take 1 (commands (snd (import_decrypt_backup_export w device_label config []))) =
          [([''zpool'', ''import'', device_label, ''-N''], None)]"
    using assms by (simp add: commands_run)
  moreover have "snd (import_decrypt_backup_export w device_label config []) =
      [Log (''Importing pool '' @ device_label),
       Command [''zpool'', ''import'', device_label, ''-N''] None,
       LogError (''An error occurred: '' @ exn_str w
         (CalledProcessError [''zpool'', ''import'', device_label, ''-N''] rc out err)),
       Notify Error (''Failed to import pool. Backup not yet run.\<newline>\<newline>Error:\<newline>'' @ err)]"
    if "proc w [''zpool'', ''import'', device_label, ''-N''] None = Exited rc out err" and "rc \<noteq> 0"
    for rc out err
    using assms that by (simp add: pipeline_defs stage_defs run_command_eq)
  ultimately show ?thesis by simp
qed

theorem failed_import_stops_the_run_witness:
  "pools (sample_config (Some ''secret'') None) ''tank'' =
     Some \<lparr>passphrase = Some ''secret'', autobackup_parameters = [''offsite'', ''tank'']\<rparr>
   \<and> proc (sample_world (except_for ''import'' (Exited 1 [] ''cannot import pool'')) (Finished 0 [] []))
       [''zpool'', ''import'', ''tank'', ''-N''] None = Exited 1 [] ''cannot import pool''
   \<and> notifications (snd (import_decrypt_backup_export
       (sample_world (except_for ''import'' (Exited 1 [] ''cannot import pool'')) (Finished 0 [] []))
       ''tank'' (sample_config (Some ''secret'') None) [])) =
     [(Error, ''Failed to import pool. Backup not yet run.\<newline>\<newline>Error:\<newline>cannot import pool'')]"
proof -
  have h: "pools (sample_config (Some ''secret'') None) ''tank'' =
     Some \<lparr>passphrase = Some ''secret'', autobackup_parameters = [''offsite'', ''tank'']\<rparr>"
    by (simp add: sample_config_def)
  have p: "proc (sample_world (except_for ''import'' (Exited 1 [] ''cannot import pool'')) (Finished 0 [] []))
       [''zpool'', ''import'', ''tank'', ''-N''] None = Exited 1 [] ''cannot import pool''"
    by (simp add: sample_defs)
  from failed_import_stops_the_run [OF h,
      of "sample_world (except_for ''import'' (Exited 1 [] ''cannot import pool'')) (Finished 0 [] [])"]
  show ?thesis using h p by simp
qed

text \<open>
  C4 (as amended). \<^verbatim>\<open>run_command\<close> returns a result whenever \<^verbatim>\<open>subprocess.run\<close>
  returns or raises \<^verbatim>\<open>CalledProcessError\<close>, that is, whenever the process ran, exited
  and its output was decoded: the result holds its exit code, stdout and stderr, whether
  the code is zero or not, and after a nonzero exit one error line that includes the
  \<^verbatim>\<open>CalledProcessError\<close> is logged first. When \<^verbatim>\<open>subprocess.run\<close> raises anything
  else (the executable cannot be started; the process ran and exited but its output is not
  text), that exception leaves \<^verbatim>\<open>run_command\<close>: no result is returned and nothing is
  logged.
\<close>

theorem run_command_returns_exit_as_data:
  "(\<forall>rc out err.
      proc w command input_data = Exited rc out err \<longrightarrow>
      run_command w logger command input_data =
        (Inr \<lparr>args = command, returncode = rc, stdout = out, stderr = err\<rparr>,
         logger @ Command command input_data #
           (if rc \<noteq> 0
            then [LogError (''An error occurred: ''
                    @ exn_str w (CalledProcessError command rc out err))]
            else [])))
   \<and> (\<forall>cls msg.
      proc w command input_data = Raises cls msg \<longrightarrow>
      run_command w logger command input_data =
        (Inl (Raised cls msg), logger @ [Command command input_data]))"
  by (simp add: run_command_def subprocess_run_def log_error_def)

theorem run_command_returns_exit_as_data_witness:
  "proc (sample_world (except_for ''export'' (Exited 1 ''o'' ''pool is busy'')) (Finished 0 [] [])) [''zpool'', ''export'', ''tank''] None = Exited 1 ''o'' ''pool is busy''
   \<and> run_command (sample_world (except_for ''export'' (Exited 1 ''o'' ''pool is busy'')) (Finished 0 [] [])) [] [''zpool'', ''export'', ''tank''] None =
     (Inr \<lparr>args = [''zpool'', ''export'', ''tank''], returncode = 1, stdout = ''o'', stderr = ''pool is busy''\<rparr>,
      [Command [''zpool'', ''export'', ''tank''] None,
       LogError ''An error occurred: Command returned non-zero exit status.''])
   \<and> proc (sample_world (except_for ''export'' (Raises UnicodeDecodeError ''invalid start byte'')) (Finished 0 [] [])) [''zpool'', ''export'', ''tank''] None = Raises UnicodeDecodeError ''invalid start byte''
   \<and> run_command (sample_world (except_for ''export'' (Raises UnicodeDecodeError ''invalid start byte'')) (Finished 0 [] [])) [] [''zpool'', ''export'', ''tank''] None =
     (Inl (Raised UnicodeDecodeError ''invalid start byte''), [Command [''zpool'', ''export'', ''tank''] None])"
proof -
  have a: "proc (sample_world (except_for ''export'' (Exited 1 ''o'' ''pool is busy'')) (Finished 0 [] [])) [''zpool'', ''export'', ''tank''] None = Exited 1 ''o'' ''pool is busy''"
    by (simp add: sample_defs)
  have b: "proc (sample_world (except_for ''export'' (Raises UnicodeDecodeError ''invalid start byte'')) (Finished 0 [] [])) [''zpool'', ''export'', ''tank''] None = Raises UnicodeDecodeError ''invalid start byte''"
    by (simp add: sample_defs)
  have s: "exn_str (sample_world (except_for ''export'' (Exited 1 ''o'' ''pool is busy'')) (Finished 0 [] [])) x = sample_str x" for x
    by (simp add: sample_world_def)
  from run_command_returns_exit_as_data [of "sample_world (except_for ''export'' (Exited 1 ''o'' ''pool is busy'')) (Finished 0 [] [])" "[''zpool'', ''export'', ''tank'']" None "[]"]
       run_command_returns_exit_as_data [of "sample_world (except_for ''export'' (Raises UnicodeDecodeError ''invalid start byte'')) (Finished 0 [] [])" "[''zpool'', ''export'', ''tank'']" None "[]"]
  show ?thesis
    using a b by (simp add: s)
qed

text \<open>
  The claim as it was stated fails where the executable cannot be started: no result is
  returned, the exception propagates, and the logger is not called.
\<close>

theorem run_command_propagates_counterexample:
  "run_command (sample_world (\<lambda>argv. Raises OSError ''No such file or directory: zpool'') (Finished 0 [] []))
     [] [''zpool'', ''import'', ''tank'', ''-N''] None =
   (Inl (Raised OSError ''No such file or directory: zpool''),
    [Command [''zpool'', ''import'', ''tank'', ''-N''] None])"
  by (simp add: run_command_def subprocess_run_def sample_world_def)

text \<open>
  C1. Once the backup engine has returned, the backup counts as degraded exactly when its
  count of failed datasets is nonzero or it wrote to stderr. A degraded backup is reported
  by one Error notification, or by one log line when no email is configured, and a clean
  one is not; in both cases the next thing the run does is to set the pool read-only. If
  that command exits with 0 the pool is exported, and if the export exits with 0 the run
  ends with the completion message.
\<close>

theorem degraded_backup_is_reported_and_the_run_goes_on:
  assumes "pools config device_label = Some pool_cfg"
    and "reaches_backup w device_label config"
    and "engine w (autobackup_parameters pool_cfg) = Finished failed out err"
  shows "prefix
           ((if failed \<noteq> 0 \<or> err \<noteq> [] then
               [case email config of
                  None \<Rightarrow> Log ''ZFS autobackup error! Disk will not be exported automatically.''
                | Some email_cfg \<Rightarrow>
                    Notify Error
                      (if send_autobackup_output email_cfg
                       then ''ZFS autobackup error! Disk will not be exported automatically:\<newline>\<newline>''
                              @ (if err \<noteq> [] then err else out)
                       else ''ZFS autobackup error! Disk will not be exported automatically. Check logs for details.'')]
             else if out \<noteq> [] then [Log out] else [])
            @ [Log (''Setting pool '' @ device_label @ '' to read-only''),
               Command [''zfs'', ''set'', ''readonly=on'', device_label] None])
           (events_after (Backup (autobackup_parameters pool_cfg))
              (snd (import_decrypt_backup_export w device_label config [])))
         \<and> (exit_code (proc w [''zfs'', ''set'', ''readonly=on'', device_label] None) = Some 0 \<longrightarrow>
              ([''zpool'', ''export'', device_label], None)
                \<in> set (commands (snd (import_decrypt_backup_export w device_label config []))))
         \<and> (exit_code (proc w [''zfs'', ''set'', ''readonly=on'', device_label] None) = Some 0
              \<and> exit_code (proc w [''zpool'', ''export'', device_label] None) = Some 0 \<longrightarrow>
              last (snd (import_decrypt_backup_export w device_label config [])) =
                (case email config of
                   None \<Rightarrow> Log (''Backup finished. You can safely unplug the disk '' @ device_label @ '' now.'')
                 | Some email_cfg \<Rightarrow>
                     Notify Info
                       (if send_autobackup_output email_cfg
                        then ''Backup finished. You can safely unplug the disk '' @ device_label
                               @ '' now.\<newline>\<newline>ZFS-Autobackup output:\<newline>'' @ out
                        else ''Backup finished. You can safely unplug the disk '' @ device_label @ '' now.'')))"
proof -
  have reported: "prefix
      (backup_report config failed out err
        @ [Log (''Setting pool '' @ device_label @ '' to read-only''),
           Command [''zfs'', ''set'', ''readonly=on'', device_label] None])
      (events_after (Backup (autobackup_parameters pool_cfg))
         (snd (import_decrypt_backup_export w device_label config [])))"
  proof (cases "proc w [''zfs'', ''set'', ''readonly=on'', device_label] None" rule: proc_outcome_three)
    case (raises cls msg)
    from run_readonly_raises [OF assms this] show ?thesis
      by (cases "is_exception_class cls")
         (simp_all add: events_after_backup_until_readonly events_after_backup_until_readonly_only)
  next
    case failed
    from run_readonly_failed [OF assms this] show ?thesis
      by (simp add: events_after_backup_until_readonly)
  next
    case ok
    note ro = this
    show ?thesis
    proof (cases "proc w [''zpool'', ''export'', device_label] None" rule: proc_outcome_three)
      case (raises cls msg)
      from run_export_raises [OF assms ro this] show ?thesis
        by (cases "is_exception_class cls") (simp_all add: events_after_backup_until_readonly)
    next
      case failed
      from run_export_failed [OF assms ro this] show ?thesis
        by (simp add: events_after_backup_until_readonly)
    next
      case ok
      from run_exported [OF assms ro this] show ?thesis
        by (simp add: events_after_backup_until_readonly)
    qed
  qed
  have exported: "([''zpool'', ''export'', device_label], None)
      \<in> set (commands (snd (import_decrypt_backup_export w device_label config [])))"
    if "exit_code (proc w [''zfs'', ''set'', ''readonly=on'', device_label] None) = Some 0"
    using assms that by (simp add: commands_run reaches_backup_def readonly_set_def)
  have completed: "last (snd (import_decrypt_backup_export w device_label config [])) =
      completion config device_label out"
    if "exit_code (proc w [''zfs'', ''set'', ''readonly=on'', device_label] None) = Some 0
          \<and> exit_code (proc w [''zpool'', ''export'', device_label] None) = Some 0"
  proof -
    from that obtain rout rerr eout eerr
      where ro: "proc w [''zfs'', ''set'', ''readonly=on'', device_label] None = Exited 0 rout rerr"
        and ex: "proc w [''zpool'', ''export'', device_label] None = Exited 0 eout eerr"
      by (blast dest: exit_code_SomeD)
    from run_exported [OF assms ro ex] show ?thesis by simp
  qed
  from reported [unfolded backup_report_def] exported completed [unfolded completion_def]
  show ?thesis by blast
qed

theorem degraded_backup_is_reported_and_the_run_goes_on_witness:
  "pools (sample_config (Some ''secret'') (Some \<lparr>send_autobackup_output = True\<rparr>)) ''tank'' =
     Some \<lparr>passphrase = Some ''secret'', autobackup_parameters = [''offsite'', ''tank'']\<rparr>
   \<and> reaches_backup (sample_world (\<lambda>argv. Exited 0 [] []) (Finished 2 ''sent'' ''dataset failed''))
        ''tank'' (sample_config (Some ''secret'') (Some \<lparr>send_autobackup_output = True\<rparr>))
   \<and> engine (sample_world (\<lambda>argv. Exited 0 [] []) (Finished 2 ''sent'' ''dataset failed''))
        [''offsite'', ''tank''] = Finished 2 ''sent'' ''dataset failed''
   \<and> prefix
        [Notify Error ''ZFS autobackup error! Disk will not be exported automatically:\<newline>\<newline>dataset failed'',
         Log ''Setting pool tank to read-only'',
         Command [''zfs'', ''set'', ''readonly=on'', ''tank''] None]
        (events_after (Backup [''offsite'', ''tank''])
           (snd (import_decrypt_backup_export
              (sample_world (\<lambda>argv. Exited 0 [] []) (Finished 2 ''sent'' ''dataset failed''))
              ''tank'' (sample_config (Some ''secret'') (Some \<lparr>send_autobackup_output = True\<rparr>)) [])))
   \<and> ([''zpool'', ''export'', ''tank''], None)
        \<in> set (commands (snd (import_decrypt_backup_export
              (sample_world (\<lambda>argv. Exited 0 [] []) (Finished 2 ''sent'' ''dataset failed''))
              ''tank'' (sample_config (Some ''secret'') (Some \<lparr>send_autobackup_output = True\<rparr>)) [])))
   \<and> last (snd (import_decrypt_backup_export
              (sample_world (\<lambda>argv. Exited 0 [] []) (Finished 2 ''sent'' ''dataset failed''))
              ''tank'' (sample_config (Some ''secret'') (Some \<lparr>send_autobackup_output = True\<rparr>)) [])) =
       Notify Info ''Backup finished. You can safely unplug the disk tank now.\<newline>\<newline>ZFS-Autobackup output:\<newline>sent''"
proof -
  have c: "pools (sample_config (Some ''secret'') (Some \<lparr>send_autobackup_output = True\<rparr>)) ''tank'' =
     Some \<lparr>passphrase = Some ''secret'', autobackup_parameters = [''offsite'', ''tank'']\<rparr>"
    by (simp add: sample_config_def)
  have r: "reaches_backup (sample_world (\<lambda>argv. Exited 0 [] []) (Finished 2 ''sent'' ''dataset failed''))
        ''tank'' (sample_config (Some ''secret'') (Some \<lparr>send_autobackup_output = True\<rparr>))"
    by (simp add: reaches_backup_def import_succeeds_def decrypt_passes_def sample_defs)
  have e: "engine (sample_world (\<lambda>argv. Exited 0 [] []) (Finished 2 ''sent'' ''dataset failed''))
        (autobackup_parameters \<lparr>passphrase = Some ''secret'', autobackup_parameters = [''offsite'', ''tank'']\<rparr>)
        = Finished 2 ''sent'' ''dataset failed''"
    by (simp add: sample_defs)
  have x: "exit_code (proc (sample_world (\<lambda>argv. Exited 0 [] []) (Finished 2 ''sent'' ''dataset failed''))
        argv None) = Some 0" for argv
    by (simp add: sample_defs)
  have m: "email (sample_config (Some ''secret'') (Some \<lparr>send_autobackup_output = True\<rparr>)) =
        Some \<lparr>send_autobackup_output = True\<rparr>"
    by (simp add: sample_config_def)
  from degraded_backup_is_reported_and_the_run_goes_on [OF c r e]
  show ?thesis
    using c r e by (simp add: x m)
qed

text \<open>
  C2. When \<^verbatim>\<open>zfs set readonly=on\<close> exits with a nonzero code, the run ends right after
  that command with the runner's error log and one Error notification, whose message holds
  the command's stderr and the stdout and stderr captured from the backup. It is the only
  notification of the read-only failure; the pool is not exported and no Info notification
  (so no completion notification) is sent.
\<close>

theorem failed_readonly_prevents_export:
  assumes "pools config device_label = Some pool_cfg"
    and "reaches_backup w device_label config"
    and "engine w (autobackup_parameters pool_cfg) = Finished failed out err"
    and "proc w [''zfs'', ''set'', ''readonly=on'', device_label] None = Exited rc rout rerr"
    and "rc \<noteq> 0"
  shows "filter (\<lambda>c. fst c = [''zpool'', ''export'', device_label])
           (commands (snd (import_decrypt_backup_export w device_label config []))) = []
         \<and> filter (\<lambda>n. fst n = Error \<and> prefix ''Failed to set pool readonly.'' (snd n))
             (notifications (snd (import_decrypt_backup_export w device_label config []))) =
           [(Error, ''Failed to set pool readonly. Disk will not be exported automatically.\<newline>\<newline>Error:\<newline>''
                      @ rerr @ ''\<newline>\<newline>Backup was successful:\<newline>'' @ out @ ''\<newline>\<newline>'' @ err)]
         \<and> filter (\<lambda>n. fst n = Info)
             (notifications (snd (import_decrypt_backup_export w device_label config []))) = []
         \<and> events_after (Command [''zfs'', ''set'', ''readonly=on'', device_label] None)
             (snd (import_decrypt_backup_export w device_label config [])) =
           [LogError (''An error occurred: '' @ exn_str w
              (CalledProcessError [''zfs'', ''set'', ''readonly=on'', device_label] rc rout rerr)),
            Notify Error (''Failed to set pool readonly. Disk will not be exported automatically.\<newline>\<newline>Error:\<newline>''
                      @ rerr @ ''\<newline>\<newline>Backup was successful:\<newline>'' @ out @ ''\<newline>\<newline>'' @ err)]"
proof -
  have "filter (\<lambda>c. fst c = [''zpool'', ''export'', device_label])
           (commands (snd (import_decrypt_backup_export w device_label config []))) = []"
    using assms
    by (simp add: commands_run readonly_set_def del: filter_False filter_True split: option.split)
  with run_readonly_failed [OF assms] show ?thesis
    by (simp add: events_after_readonly_until_readonly)
qed

theorem failed_readonly_prevents_export_witness:
  "pools (sample_config None (Some \<lparr>send_autobackup_output = False\<rparr>)) ''tank'' = Some \<lparr>passphrase = None, autobackup_parameters = [''offsite'', ''tank'']\<rparr>
   \<and> reaches_backup (sample_world (except_for ''readonly=on'' (Exited 1 [] ''pool is busy'')) (Finished 2 ''sent'' ''dataset failed'')) ''tank'' (sample_config None (Some \<lparr>send_autobackup_output = False\<rparr>))
   \<and> engine (sample_world (except_for ''readonly=on'' (Exited 1 [] ''pool is busy'')) (Finished 2 ''sent'' ''dataset failed'')) [''offsite'', ''tank''] = Finished 2 ''sent'' ''dataset failed''
   \<and> proc (sample_world (except_for ''readonly=on'' (Exited 1 [] ''pool is busy'')) (Finished 2 ''sent'' ''dataset failed'')) [''zfs'', ''set'', ''readonly=on'', ''tank''] None = Exited 1 [] ''pool is busy''
   \<and> notifications (snd (import_decrypt_backup_export (sample_world (except_for ''readonly=on'' (Exited 1 [] ''pool is busy'')) (Finished 2 ''sent'' ''dataset failed'')) ''tank'' (sample_config None (Some \<lparr>send_autobackup_output = False\<rparr>)) [])) =
       [(Error, ''ZFS autobackup error! Disk will not be exported automatically. Check logs for details.''),
        (Error, ''Failed to set pool readonly. Disk will not be exported automatically.\<newline>\<newline>Error:\<newline>pool is busy\<newline>\<newline>Backup was successful:\<newline>sent\<newline>\<newline>dataset failed'')]
   \<and> filter (\<lambda>c. fst c = [''zpool'', ''export'', ''tank''])
         (commands (snd (import_decrypt_backup_export (sample_world (except_for ''readonly=on'' (Exited 1 [] ''pool is busy'')) (Finished 2 ''sent'' ''dataset failed'')) ''tank'' (sample_config None (Some \<lparr>send_autobackup_output = False\<rparr>)) []))) = []
   \<and> events_after (Command [''zfs'', ''set'', ''readonly=on'', ''tank''] None)
         (snd (import_decrypt_backup_export (sample_world (except_for ''readonly=on'' (Exited 1 [] ''pool is busy'')) (Finished 2 ''sent'' ''dataset failed'')) ''tank'' (sample_config None (Some \<lparr>send_autobackup_output = False\<rparr>)) [])) =
       [LogError ''An error occurred: Command returned non-zero exit status.'',
        Notify Error ''Failed to set pool readonly. Disk will not be exported automatically.\<newline>\<newline>Error:\<newline>pool is busy\<newline>\<newline>Backup was successful:\<newline>sent\<newline>\<newline>dataset failed'']"
proof -
  have c: "pools (sample_config None (Some \<lparr>send_autobackup_output = False\<rparr>)) ''tank'' = Some \<lparr>passphrase = None, autobackup_parameters = [''offsite'', ''tank'']\<rparr>"
    by (simp add: sample_config_def)
  have r: "reaches_backup (sample_world (except_for ''readonly=on'' (Exited 1 [] ''pool is busy'')) (Finished 2 ''sent'' ''dataset failed'')) ''tank'' (sample_config None (Some \<lparr>send_autobackup_output = False\<rparr>))"
    by (simp add: reaches_backup_def import_succeeds_def decrypt_passes_def sample_defs)
  have e: "engine (sample_world (except_for ''readonly=on'' (Exited 1 [] ''pool is busy'')) (Finished 2 ''sent'' ''dataset failed''))
        (autobackup_parameters \<lparr>passphrase = None, autobackup_parameters = [''offsite'', ''tank'']\<rparr>)
        = Finished 2 ''sent'' ''dataset failed''"
    by (simp add: sample_defs)
  have p: "proc (sample_world (except_for ''readonly=on'' (Exited 1 [] ''pool is busy'')) (Finished 2 ''sent'' ''dataset failed'')) [''zfs'', ''set'', ''readonly=on'', ''tank''] None = Exited 1 [] ''pool is busy''"
    by (simp add: sample_defs)
  have n: "notifications (snd (import_decrypt_backup_export (sample_world (except_for ''readonly=on'' (Exited 1 [] ''pool is busy'')) (Finished 2 ''sent'' ''dataset failed'')) ''tank'' (sample_config None (Some \<lparr>send_autobackup_output = False\<rparr>)) [])) =
       [(Error, ''ZFS autobackup error! Disk will not be exported automatically. Check logs for details.''),
        (Error, ''Failed to set pool readonly. Disk will not be exported automatically.\<newline>\<newline>Error:\<newline>pool is busy\<newline>\<newline>Backup was successful:\<newline>sent\<newline>\<newline>dataset failed'')]"
    by (simp add: pipeline_defs stage_defs run_command_eq sample_defs)
  have s: "exn_str (sample_world (except_for ''readonly=on'' (Exited 1 [] ''pool is busy'')) (Finished 2 ''sent'' ''dataset failed'')) x = sample_str x" for x
    by (simp add: sample_world_def)
  from failed_readonly_prevents_export [OF c r e p]
  show ?thesis
    using c r e p n by (simp add: s)
qed

text \<open>
  C10. When \<^verbatim>\<open>zfs set readonly=on\<close> exits with a nonzero code, the last notification of
  the run is the Error notification of that failure, and its message contains the words
  "Backup was successful:" followed by the stdout captured from the backup, whatever the
  engine's count of failed datasets and whatever it wrote to stderr.
\<close>

theorem readonly_failure_message_says_backup_was_successful:
  assumes "pools config device_label = Some pool_cfg"
    and "reaches_backup w device_label config"
    and "engine w (autobackup_parameters pool_cfg) = Finished failed out err"
    and "proc w [''zfs'', ''set'', ''readonly=on'', device_label] None = Exited rc rout rerr"
    and "rc \<noteq> 0"
  shows "last (snd (import_decrypt_backup_export w device_label config [])) =
           Notify Error
             ((''Failed to set pool readonly. Disk will not be exported automatically.\<newline>\<newline>Error:\<newline>''
                 @ rerr @ ''\<newline>\<newline>'')
              @ ''Backup was successful:\<newline>'' @ out @ ''\<newline>\<newline>'' @ err)"
  using run_readonly_failed [OF assms] by simp

theorem readonly_failure_message_says_backup_was_successful_witness:
  "pools (sample_config None (Some \<lparr>send_autobackup_output = False\<rparr>)) ''tank'' = Some \<lparr>passphrase = None, autobackup_parameters = [''offsite'', ''tank'']\<rparr>
   \<and> reaches_backup (sample_world (except_for ''readonly=on'' (Exited 1 [] ''pool is busy'')) (Finished 2 ''sent'' ''dataset failed'')) ''tank'' (sample_config None (Some \<lparr>send_autobackup_output = False\<rparr>))
   \<and> engine (sample_world (except_for ''readonly=on'' (Exited 1 [] ''pool is busy'')) (Finished 2 ''sent'' ''dataset failed'')) [''offsite'', ''tank''] = Finished 2 ''sent'' ''dataset failed''
   \<and> proc (sample_world (except_for ''readonly=on'' (Exited 1 [] ''pool is busy'')) (Finished 2 ''sent'' ''dataset failed'')) [''zfs'', ''set'', ''readonly=on'', ''tank''] None = Exited 1 [] ''pool is busy''
   \<and> last (snd (import_decrypt_backup_export (sample_world (except_for ''readonly=on'' (Exited 1 [] ''pool is busy'')) (Finished 2 ''sent'' ''dataset failed'')) ''tank'' (sample_config None (Some \<lparr>send_autobackup_output = False\<rparr>)) [])) =
       Notify Error ''Failed to set pool readonly. Disk will not be exported automatically.\<newline>\<newline>Error:\<newline>pool is busy\<newline>\<newline>Backup was successful:\<newline>sent\<newline>\<newline>dataset failed''"
proof -
  have c: "pools (sample_config None (Some \<lparr>send_autobackup_output = False\<rparr>)) ''tank'' = Some \<lparr>passphrase = None, autobackup_parameters = [''offsite'', ''tank'']\<rparr>"
    by (simp add: sample_config_def)
  have r: "reaches_backup (sample_world (except_for ''readonly=on'' (Exited 1 [] ''pool is busy'')) (Finished 2 ''sent'' ''dataset failed'')) ''tank'' (sample_config None (Some \<lparr>send_autobackup_output = False\<rparr>))"
    by (simp add: reaches_backup_def import_succeeds_def decrypt_passes_def sample_defs)
  have e: "engine (sample_world (except_for ''readonly=on'' (Exited 1 [] ''pool is busy'')) (Finished 2 ''sent'' ''dataset failed''))
        (autobackup_parameters \<lparr>passphrase = None, autobackup_parameters = [''offsite'', ''tank'']\<rparr>)
        = Finished 2 ''sent'' ''dataset failed''"
    by (simp add: sample_defs)
  have p: "proc (sample_world (except_for ''readonly=on'' (Exited 1 [] ''pool is busy'')) (Finished 2 ''sent'' ''dataset failed'')) [''zfs'', ''set'', ''readonly=on'', ''tank''] None = Exited 1 [] ''pool is busy''"
    by (simp add: sample_defs)
  from readonly_failure_message_says_backup_was_successful [OF c r e p]
  show ?thesis
    using c r e p by simp
qed

text \<open>
  C8. In a run whose export exits with 0: with no email configuration no Info notification
  is sent and the run ends with the completion log line; with an email configuration the
  run sends exactly one Info notification, which is the completion message followed by the
  stdout captured from the backup when \<^verbatim>\<open>send_autobackup_output\<close> is set, and the bare
  completion message, made of fixed words and the device identifier only, when it is not.
\<close>

theorem completion_message_follows_configuration:
  assumes "pools config device_label = Some pool_cfg"
    and "reaches_backup w device_label config"
    and "engine w (autobackup_parameters pool_cfg) = Finished failed out err"
    and "exit_code (proc w [''zfs'', ''set'', ''readonly=on'', device_label] None) = Some 0"
    and "exit_code (proc w [''zpool'', ''export'', device_label] None) = Some 0"
  shows "filter (\<lambda>n. fst n = Info)
           (notifications (snd (import_decrypt_backup_export w device_label config []))) =
           (case email config of
              None \<Rightarrow> []
            | Some email_cfg \<Rightarrow>
                [(Info,
                  if send_autobackup_output email_cfg
                  then ''Backup finished. You can safely unplug the disk '' @ device_label
                         @ '' now.\<newline>\<newline>ZFS-Autobackup output:\<newline>'' @ out
                  else ''Backup finished. You can safely unplug the disk '' @ device_label @ '' now.'')])
         \<and> last (snd (import_decrypt_backup_export w device_label config [])) =
           (case email config of
              None \<Rightarrow> Log (''Backup finished. You can safely unplug the disk '' @ device_label @ '' now.'')
            | Some email_cfg \<Rightarrow>
                Notify Info
                  (if send_autobackup_output email_cfg
                   then ''Backup finished. You can safely unplug the disk '' @ device_label
                          @ '' now.\<newline>\<newline>ZFS-Autobackup output:\<newline>'' @ out
                   else ''Backup finished. You can safely unplug the disk '' @ device_label @ '' now.''))"
proof -
  from assms(4,5) obtain rout rerr eout eerr
    where ro: "proc w [''zfs'', ''set'', ''readonly=on'', device_label] None = Exited 0 rout rerr"
      and ex: "proc w [''zpool'', ''export'', device_label] None = Exited 0 eout eerr"
    by (blast dest: exit_code_SomeD)
  have "notifications [completion config device_label out] =
          (case email config of
             None \<Rightarrow> []
           | Some email_cfg \<Rightarrow>
               [(Info,
                 if send_autobackup_output email_cfg
                 then ''Backup finished. You can safely unplug the disk '' @ device_label
                        @ '' now.\<newline>\<newline>ZFS-Autobackup output:\<newline>'' @ out
                 else ''Backup finished. You can safely unplug the disk '' @ device_label @ '' now.'')])"
    by (cases "email config") (simp_all add: completion_def)
  moreover have "filter (\<lambda>n. fst n = Info) (notifications [completion config device_label out]) =
      notifications [completion config device_label out]"
    by (cases "email config") (simp_all add: completion_def)
  ultimately show ?thesis
    using run_exported [OF assms(1-3) ro ex]
    by (simp add: completion_def [symmetric])
qed

theorem completion_message_follows_configuration_witness:
  "pools (sample_config None (Some \<lparr>send_autobackup_output = False\<rparr>)) ''tank'' = Some \<lparr>passphrase = None, autobackup_parameters = [''offsite'', ''tank'']\<rparr>
   \<and> reaches_backup (sample_world (\<lambda>argv. Exited 0 [] []) (Finished 0 ''sent 3 snapshots'' [])) ''tank'' (sample_config None (Some \<lparr>send_autobackup_output = False\<rparr>))
   \<and> engine (sample_world (\<lambda>argv. Exited 0 [] []) (Finished 0 ''sent 3 snapshots'' [])) [''offsite'', ''tank''] = Finished 0 ''sent 3 snapshots'' []
   \<and> exit_code (proc (sample_world (\<lambda>argv. Exited 0 [] []) (Finished 0 ''sent 3 snapshots'' [])) [''zfs'', ''set'', ''readonly=on'', ''tank''] None) = Some 0
   \<and> exit_code (proc (sample_world (\<lambda>argv. Exited 0 [] []) (Finished 0 ''sent 3 snapshots'' [])) [''zpool'', ''export'', ''tank''] None) = Some 0
   \<and> notifications (snd (import_decrypt_backup_export (sample_world (\<lambda>argv. Exited 0 [] []) (Finished 0 ''sent 3 snapshots'' [])) ''tank'' (sample_config None (Some \<lparr>send_autobackup_output = False\<rparr>)) [])) =
       [(Info, ''Backup finished. You can safely unplug the disk tank now.'')]
   \<and> last (snd (import_decrypt_backup_export (sample_world (\<lambda>argv. Exited 0 [] []) (Finished 0 ''sent 3 snapshots'' [])) ''tank'' (sample_config None (Some \<lparr>send_autobackup_output = False\<rparr>)) [])) =
       Notify Info ''Backup finished. You can safely unplug the disk tank now.''"
proof -
  have c: "pools (sample_config None (Some \<lparr>send_autobackup_output = False\<rparr>)) ''tank'' = Some \<lparr>passphrase = None, autobackup_parameters = [''offsite'', ''tank'']\<rparr>"
    by (simp add: sample_config_def)
  have r: "reaches_backup (sample_world (\<lambda>argv. Exited 0 [] []) (Finished 0 ''sent 3 snapshots'' [])) ''tank'' (sample_config None (Some \<lparr>send_autobackup_output = False\<rparr>))"
    by (simp add: reaches_backup_def import_succeeds_def decrypt_passes_def sample_defs)
  have e: "engine (sample_world (\<lambda>argv. Exited 0 [] []) (Finished 0 ''sent 3 snapshots'' []))
        (autobackup_parameters \<lparr>passphrase = None, autobackup_parameters = [''offsite'', ''tank'']\<rparr>)
        = Finished 0 ''sent 3 snapshots'' []"
    by (simp add: sample_defs)
  have x: "exit_code (proc (sample_world (\<lambda>argv. Exited 0 [] []) (Finished 0 ''sent 3 snapshots'' [])) argv None) = Some 0" for argv
    by (simp add: sample_defs)
  have m: "email (sample_config None (Some \<lparr>send_autobackup_output = False\<rparr>)) = Some \<lparr>send_autobackup_output = False\<rparr>"
    by (simp add: sample_config_def)
  have n: "notifications (snd (import_decrypt_backup_export (sample_world (\<lambda>argv. Exited 0 [] []) (Finished 0 ''sent 3 snapshots'' [])) ''tank'' (sample_config None (Some \<lparr>send_autobackup_output = False\<rparr>)) [])) =
       [(Info, ''Backup finished. You can safely unplug the disk tank now.'')]"
    by (simp add: pipeline_defs stage_defs run_command_eq sample_defs)
  from completion_message_follows_configuration [OF c r e x x]
  show ?thesis
    using c r e x n by (simp add: m)
qed




text \<open>
  An \<^verbatim>\<open>Exception\<close> of the backup engine itself, in the same sample world: the
  notification is an Error notification again, and the error it names is the
  \<^verbatim>\<open>UnboundLocalError\<close> of the inner handler, not the engine's.
\<close>

lemma backup_exception_sample:
  "notifications (snd (import_decrypt_backup_export (sample_world (\<lambda>argv. Exited 0 [] []) (Crashed RuntimeError ''engine failure'')) ''tank'' (sample_config None (Some \<lparr>send_autobackup_output = False\<rparr>)) [])) =
     [(Error, ''An unexpected error occurred. Backup may have failed. Please investigate.\<newline>\<newline>Error:\<newline>cannot access local variable stdout\<newline>Traceback (most recent call last)'')]"
  by (simp add: pipeline_defs stage_defs run_command_eq sample_defs)

text \<open>
  C5. In a run whose import exits with 0, \<^verbatim>\<open>zfs load-key\<close> is invoked exactly when the
  pool's passphrase is present and not empty, once, with the passphrase as the process's
  input; the same holds of \<^verbatim>\<open>decrypt_and_backup\<close> by itself. With no passphrase, or an
  empty one, the run goes from the import straight to the backup engine. When
  \<^verbatim>\<open>zfs load-key\<close> exits with a nonzero code the run ends there with one Error
  notification: no backup, no read-only command, no export.
\<close>

theorem key_is_loaded_only_with_a_passphrase:
  assumes "pools config device_label = Some pool_cfg"
    and "import_succeeds w device_label"
  shows "filter (\<lambda>c. fst c = [''zfs'', ''load-key'', device_label])
           (commands (snd (import_decrypt_backup_export w device_label config []))) =
           (case passphrase pool_cfg of
              None \<Rightarrow> []
            | Some pass \<Rightarrow> if pass = [] then [] else [([''zfs'', ''load-key'', device_label], Some pass)])
         \<and> filter (\<lambda>c. fst c = [''zfs'', ''load-key'', device_label])
             (commands (snd (decrypt_and_backup w device_label pool_cfg config []))) =
           (case passphrase pool_cfg of
              None \<Rightarrow> []
            | Some pass \<Rightarrow> if pass = [] then [] else [([''zfs'', ''load-key'', device_label], Some pass)])
         \<and> (passphrase pool_cfg = None \<or> passphrase pool_cfg = Some [] \<longrightarrow>
              take 4 (snd (import_decrypt_backup_export w device_label config [])) =
                [Log (''Importing pool '' @ device_label),
                 Command [''zpool'', ''import'', device_label, ''-N''] None,
                 Log (''Starting ZFS-Autobackup for pool '' @ device_label
                        @ '' with parameters:\<newline>zfs-autobackup ''
                        @ join '' '' (autobackup_parameters pool_cfg)),
                 Backup (autobackup_parameters pool_cfg)])
         \<and> (\<forall>pass rc kout kerr.
              passphrase pool_cfg = Some pass \<and> pass \<noteq> []
              \<and> proc w [''zfs'', ''load-key'', device_label] (Some pass) = Exited rc kout kerr
              \<and> rc \<noteq> 0 \<longrightarrow>
              snd (import_decrypt_backup_export w device_label config []) =
                [Log (''Importing pool '' @ device_label),
                 Command [''zpool'', ''import'', device_label, ''-N''] None,
                 Log (''Decrypting pool '' @ device_label),
                 Command [''zfs'', ''load-key'', device_label] (Some pass),
                 LogError (''An error occurred: '' @ exn_str w
                   (CalledProcessError [''zfs'', ''load-key'', device_label] rc kout kerr)),
                 Notify Error (''Failed to decrypt pool. Backup not yet run.\<newline>\<newline>Error:\<newline>'' @ kerr)])"
proof (intro conjI allI impI; (elim conjE)?)
  show "filter (\<lambda>c. fst c = [''zfs'', ''load-key'', device_label])
           (commands (snd (import_decrypt_backup_export w device_label config []))) =
           (case passphrase pool_cfg of
              None \<Rightarrow> []
            | Some pass \<Rightarrow> if pass = [] then [] else [([''zfs'', ''load-key'', device_label], Some pass)])"
    using assms
    by (simp add: commands_run del: filter_False filter_True
        split: option.split engine_outcome.split)
next
  show "filter (\<lambda>c. fst c = [''zfs'', ''load-key'', device_label])
             (commands (snd (decrypt_and_backup w device_label pool_cfg config []))) =
           (case passphrase pool_cfg of
              None \<Rightarrow> []
            | Some pass \<Rightarrow> if pass = [] then [] else [([''zfs'', ''load-key'', device_label], Some pass)])"
    by (simp add: decrypt_and_backup_def decrypt_and_backup_except_commands
        decrypt_and_backup_try_commands del: filter_False filter_True
        split: option.split engine_outcome.split)
next
  assume none: "passphrase pool_cfg = None \<or> passphrase pool_cfg = Some []"
  with assms have "reaches_backup w device_label config"
    by (auto simp add: reaches_backup_def decrypt_passes_def)
  from run_begins_with_backup [OF assms(1) this] none
  show "take 4 (snd (import_decrypt_backup_export w device_label config [])) =
          [Log (''Importing pool '' @ device_label),
           Command [''zpool'', ''import'', device_label, ''-N''] None,
           Log (''Starting ZFS-Autobackup for pool '' @ device_label
                  @ '' with parameters:\<newline>zfs-autobackup ''
                  @ join '' '' (autobackup_parameters pool_cfg)),
           Backup (autobackup_parameters pool_cfg)]"
    by (auto simp add: before_backup_def)
next
  fix pass rc kout kerr
  assume p: "passphrase pool_cfg = Some pass" "pass \<noteq> []"
    "proc w [''zfs'', ''load-key'', device_label] (Some pass) = Exited rc kout kerr" "rc \<noteq> 0"
  from assms(2) obtain iout ierr
    where "proc w [''zpool'', ''import'', device_label, ''-N''] None = Exited 0 iout ierr"
    by (auto simp add: import_succeeds_def dest: exit_code_SomeD)
  from run_decrypt_failed [OF assms(1) this p]
  show "snd (import_decrypt_backup_export w device_label config []) =
          [Log (''Importing pool '' @ device_label),
           Command [''zpool'', ''import'', device_label, ''-N''] None,
           Log (''Decrypting pool '' @ device_label),
           Command [''zfs'', ''load-key'', device_label] (Some pass),
           LogError (''An error occurred: '' @ exn_str w
             (CalledProcessError [''zfs'', ''load-key'', device_label] rc kout kerr)),
           Notify Error (''Failed to decrypt pool. Backup not yet run.\<newline>\<newline>Error:\<newline>'' @ kerr)]"
    by simp
qed

theorem key_is_loaded_only_with_a_passphrase_witness:
  "pools (sample_config None None) ''tank'' = Some \<lparr>passphrase = None, autobackup_parameters = [''offsite'', ''tank'']\<rparr>
   \<and> import_succeeds (sample_world (\<lambda>argv. Exited 0 [] []) (Finished 0 ''sent'' [])) ''tank''
   \<and> filter (\<lambda>c. fst c = [''zfs'', ''load-key'', ''tank''])
         (commands (snd (import_decrypt_backup_export (sample_world (\<lambda>argv. Exited 0 [] []) (Finished 0 ''sent'' [])) ''tank'' (sample_config None None) []))) = []
   \<and> take 4 (snd (import_decrypt_backup_export (sample_world (\<lambda>argv. Exited 0 [] []) (Finished 0 ''sent'' [])) ''tank'' (sample_config None None) [])) =
       [Log ''Importing pool tank'',
        Command [''zpool'', ''import'', ''tank'', ''-N''] None,
        Log ''Starting ZFS-Autobackup for pool tank with parameters:\<newline>zfs-autobackup offsite tank'',
        Backup [''offsite'', ''tank'']]
   \<and> pools (sample_config (Some ''secret'') None) ''tank'' = Some \<lparr>passphrase = Some ''secret'', autobackup_parameters = [''offsite'', ''tank'']\<rparr>
   \<and> import_succeeds (sample_world (except_for ''load-key'' (Exited 255 [] ''Key load error: Incorrect key provided'')) (Finished 0 ''sent'' [])) ''tank''
   \<and> proc (sample_world (except_for ''load-key'' (Exited 255 [] ''Key load error: Incorrect key provided'')) (Finished 0 ''sent'' [])) [''zfs'', ''load-key'', ''tank''] (Some ''secret'') =
       Exited 255 [] ''Key load error: Incorrect key provided''
   \<and> filter (\<lambda>c. fst c = [''zfs'', ''load-key'', ''tank''])
         (commands (snd (import_decrypt_backup_export (sample_world (except_for ''load-key'' (Exited 255 [] ''Key load error: Incorrect key provided'')) (Finished 0 ''sent'' [])) ''tank'' (sample_config (Some ''secret'') None) []))) =
       [([''zfs'', ''load-key'', ''tank''], Some ''secret'')]
   \<and> snd (import_decrypt_backup_export (sample_world (except_for ''load-key'' (Exited 255 [] ''Key load error: Incorrect key provided'')) (Finished 0 ''sent'' [])) ''tank'' (sample_config (Some ''secret'') None) []) =
       [Log ''Importing pool tank'',
        Command [''zpool'', ''import'', ''tank'', ''-N''] None,
        Log ''Decrypting pool tank'',
        Command [''zfs'', ''load-key'', ''tank''] (Some ''secret''),
        LogError ''An error occurred: Command returned non-zero exit status.'',
        Notify Error ''Failed to decrypt pool. Backup not yet run.\<newline>\<newline>Error:\<newline>Key load error: Incorrect key provided'']"
proof -
  have cn: "pools (sample_config None None) ''tank'' = Some \<lparr>passphrase = None, autobackup_parameters = [''offsite'', ''tank'']\<rparr>"
    by (simp add: sample_config_def)
  have i_ok: "import_succeeds (sample_world (\<lambda>argv. Exited 0 [] []) (Finished 0 ''sent'' [])) ''tank''"
    by (simp add: import_succeeds_def sample_defs)
  have cs: "pools (sample_config (Some ''secret'') None) ''tank'' = Some \<lparr>passphrase = Some ''secret'', autobackup_parameters = [''offsite'', ''tank'']\<rparr>"
    by (simp add: sample_config_def)
  have i_lk: "import_succeeds (sample_world (except_for ''load-key'' (Exited 255 [] ''Key load error: Incorrect key provided'')) (Finished 0 ''sent'' [])) ''tank''"
    by (simp add: import_succeeds_def sample_defs)
  have k: "proc (sample_world (except_for ''load-key'' (Exited 255 [] ''Key load error: Incorrect key provided'')) (Finished 0 ''sent'' [])) [''zfs'', ''load-key'', ''tank''] (Some ''secret'') =
       Exited 255 [] ''Key load error: Incorrect key provided''"
    by (simp add: sample_defs)
  have s: "exn_str (sample_world (except_for ''load-key'' (Exited 255 [] ''Key load error: Incorrect key provided'')) (Finished 0 ''sent'' [])) x = sample_str x" for x
    by (simp add: sample_world_def)
  from key_is_loaded_only_with_a_passphrase [OF cn i_ok]
  have none: "filter (\<lambda>c. fst c = [''zfs'', ''load-key'', ''tank''])
         (commands (snd (import_decrypt_backup_export (sample_world (\<lambda>argv. Exited 0 [] []) (Finished 0 ''sent'' [])) ''tank'' (sample_config None None) []))) = []
    \<and> take 4 (snd (import_decrypt_backup_export (sample_world (\<lambda>argv. Exited 0 [] []) (Finished 0 ''sent'' [])) ''tank'' (sample_config None None) [])) =
       [Log ''Importing pool tank'',
        Command [''zpool'', ''import'', ''tank'', ''-N''] None,
        Log ''Starting ZFS-Autobackup for pool tank with parameters:\<newline>zfs-autobackup offsite tank'',
        Backup [''offsite'', ''tank'']]"
    by simp
  from key_is_loaded_only_with_a_passphrase [OF cs i_lk] k
  have some: "filter (\<lambda>c. fst c = [''zfs'', ''load-key'', ''tank''])
         (commands (snd (import_decrypt_backup_export (sample_world (except_for ''load-key'' (Exited 255 [] ''Key load error: Incorrect key provided'')) (Finished 0 ''sent'' [])) ''tank'' (sample_config (Some ''secret'') None) []))) =
       [([''zfs'', ''load-key'', ''tank''], Some ''secret'')]
    \<and> snd (import_decrypt_backup_export (sample_world (except_for ''load-key'' (Exited 255 [] ''Key load error: Incorrect key provided'')) (Finished 0 ''sent'' [])) ''tank'' (sample_config (Some ''secret'') None) []) =
       [Log ''Importing pool tank'',
        Command [''zpool'', ''import'', ''tank'', ''-N''] None,
        Log ''Decrypting pool tank'',
        Command [''zfs'', ''load-key'', ''tank''] (Some ''secret''),
        LogError ''An error occurred: Command returned non-zero exit status.'',
        Notify Error ''Failed to decrypt pool. Backup not yet run.\<newline>\<newline>Error:\<newline>Key load error: Incorrect key provided'']"
    by (simp add: s)
  from cn i_ok none cs i_lk k some show ?thesis by simp
qed

text \<open>
  C9. The commands of a run are, at most, the import, \<^verbatim>\<open>zfs load-key\<close>, the read-only
  command and the export, with argument vectors made of fixed words and the device
  identifier; only \<^verbatim>\<open>zfs load-key\<close> is given an input, and that input is the passphrase.
  Nothing else of a run depends on the passphrase: two runs in the same world, for
  configurations that differ only in their (non-empty) passphrases, to which
  \<^verbatim>\<open>zfs load-key\<close> answers in the same way, produce the same log lines, notifications,
  argument vectors and backups.
\<close>

theorem passphrase_reaches_only_the_input_of_load_key:
  assumes "pools config device_label = Some pool_cfg"
  shows "set (commands (snd (import_decrypt_backup_export w device_label config []))) \<subseteq>
           {([''zpool'', ''import'', device_label, ''-N''], None),
            ([''zfs'', ''load-key'', device_label], passphrase pool_cfg),
            ([''zfs'', ''set'', ''readonly=on'', device_label], None),
            ([''zpool'', ''export'', device_label], None)}
         \<and> (\<forall>pass pass' config'.
              passphrase pool_cfg = Some pass \<and> pass \<noteq> [] \<and> pass' \<noteq> []
              \<and> pools config' device_label = Some (pool_cfg\<lparr>passphrase := Some pass'\<rparr>)
              \<and> email config' = email config
              \<and> proc w [''zfs'', ''load-key'', device_label] (Some pass') =
                  proc w [''zfs'', ''load-key'', device_label] (Some pass) \<longrightarrow>
              map redact (snd (import_decrypt_backup_export w device_label config' [])) =
              map redact (snd (import_decrypt_backup_export w device_label config [])))"
proof (intro conjI allI impI; (elim conjE)?)
  show "set (commands (snd (import_decrypt_backup_export w device_label config []))) \<subseteq>
           {([''zpool'', ''import'', device_label, ''-N''], None),
            ([''zfs'', ''load-key'', device_label], passphrase pool_cfg),
            ([''zfs'', ''set'', ''readonly=on'', device_label], None),
            ([''zpool'', ''export'', device_label], None)}"
    using assms
    by (auto simp add: commands_run split: option.splits engine_outcome.splits if_splits)
next
  fix pass pass' :: string and config' :: app_config
  assume p: "passphrase pool_cfg = Some pass" "pass \<noteq> []"
    and p': "pass' \<noteq> []"
    and c': "pools config' device_label = Some (pool_cfg\<lparr>passphrase := Some pass'\<rparr>)"
    and m: "email config' = email config"
    and k: "proc w [''zfs'', ''load-key'', device_label] (Some pass') =
            proc w [''zfs'', ''load-key'', device_label] (Some pass)"
  let ?pool_cfg' = "pool_cfg\<lparr>passphrase := Some pass'\<rparr>"
  have q: "passphrase ?pool_cfg' = Some pass'" by simp
  note c = assms
  have before: "map redact (before_backup device_label ?pool_cfg') =
                map redact (before_backup device_label pool_cfg)"
    using p p' by (simp add: before_backup_def)
  have until: "map redact (until_readonly device_label ?pool_cfg' config' failed out err) =
               map redact (until_readonly device_label pool_cfg config failed out err)"
    for failed out err
    using before m by (simp add: until_readonly_def backup_report_def)
  have same_end: "completion config' device_label out = completion config device_label out" for out
    using m by (simp add: completion_def)
  show "map redact (snd (import_decrypt_backup_export w device_label config' [])) =
        map redact (snd (import_decrypt_backup_export w device_label config []))"
  proof (cases "proc w [''zpool'', ''import'', device_label, ''-N''] None" rule: proc_outcome_three)
    case (raises cls msg)
    from run_import_raises [OF c this] run_import_raises [OF c' this]
    show ?thesis by simp
  next
    case failed
    from run_import_failed [OF c this] run_import_failed [OF c' this]
    show ?thesis by simp
  next
    case ok
    note i = this
    show ?thesis
    proof (cases "proc w [''zfs'', ''load-key'', device_label] (Some pass)" rule: proc_outcome_three)
      case (raises cls msg)
      from run_decrypt_raises [OF c i p this]
        run_decrypt_raises [OF c' i q p' this [folded k]]
      show ?thesis by simp
    next
      case failed
      from run_decrypt_failed [OF c i p this]
        run_decrypt_failed [OF c' i q p' failed(1) [folded k] failed(2)]
      show ?thesis by simp
    next
      case ok
      have r: "reaches_backup w device_label config"
        using c i p ok by (simp add: reaches_backup_def import_succeeds_def decrypt_passes_def)
      have r': "reaches_backup w device_label config'"
        using c' i p' ok k by (simp add: reaches_backup_def import_succeeds_def decrypt_passes_def)
      show ?thesis
      proof (cases "engine w (autobackup_parameters pool_cfg)")
        case (Crashed cls msg)
        then have "engine w (autobackup_parameters ?pool_cfg') = Crashed cls msg" by simp
        from run_engine_crashed [OF c r Crashed] run_engine_crashed [OF c' r' this] before
        show ?thesis by simp
      next
        case (Finished failed out err)
        note e = this
        then have e': "engine w (autobackup_parameters ?pool_cfg') = Finished failed out err" by simp
        show ?thesis
        proof (cases "proc w [''zfs'', ''set'', ''readonly=on'', device_label] None"
            rule: proc_outcome_three)
          case (raises cls msg)
          from run_readonly_raises [OF c r e this] run_readonly_raises [OF c' r' e' this]
          show ?thesis by (simp add: until)
        next
          case failed
          from run_readonly_failed [OF c r e this] run_readonly_failed [OF c' r' e' this]
          show ?thesis by (simp add: until)
        next
          case ok
          note ro = this
          show ?thesis
          proof (cases "proc w [''zpool'', ''export'', device_label] None" rule: proc_outcome_three)
            case (raises cls msg)
            from run_export_raises [OF c r e ro this]
              run_export_raises [OF c' r' e' ro this]
            show ?thesis by (simp add: until)
          next
            case failed
            from run_export_failed [OF c r e ro this] run_export_failed [OF c' r' e' ro this]
            show ?thesis by (simp add: until)
          next
            case ok
            from run_exported [OF c r e ro this] run_exported [OF c' r' e' ro this]
            show ?thesis by (simp add: until same_end)
          qed
        qed
      qed
    qed
  qed
qed

theorem passphrase_reaches_only_the_input_of_load_key_witness:
  "pools (sample_config (Some ''secret'') None) ''tank'' = Some \<lparr>passphrase = Some ''secret'', autobackup_parameters = [''offsite'', ''tank'']\<rparr>
   \<and> pools (sample_config (Some ''hunter2'') None) ''tank'' = Some (\<lparr>passphrase = Some ''secret'', autobackup_parameters = [''offsite'', ''tank'']\<rparr>\<lparr>passphrase := Some ''hunter2''\<rparr>)
   \<and> email (sample_config (Some ''hunter2'') None) = email (sample_config (Some ''secret'') None)
   \<and> proc (sample_world (\<lambda>argv. Exited 0 [] []) (Finished 0 ''sent'' [])) [''zfs'', ''load-key'', ''tank''] (Some ''hunter2'') =
       proc (sample_world (\<lambda>argv. Exited 0 [] []) (Finished 0 ''sent'' [])) [''zfs'', ''load-key'', ''tank''] (Some ''secret'')
   \<and> commands (snd (import_decrypt_backup_export (sample_world (\<lambda>argv. Exited 0 [] []) (Finished 0 ''sent'' [])) ''tank'' (sample_config (Some ''secret'') None) [])) =
       [([''zpool'', ''import'', ''tank'', ''-N''], None),
        ([''zfs'', ''load-key'', ''tank''], Some ''secret''),
        ([''zfs'', ''set'', ''readonly=on'', ''tank''], None),
        ([''zpool'', ''export'', ''tank''], None)]
   \<and> map redact (snd (import_decrypt_backup_export (sample_world (\<lambda>argv. Exited 0 [] []) (Finished 0 ''sent'' [])) ''tank'' (sample_config (Some ''hunter2'') None) [])) =
       map redact (snd (import_decrypt_backup_export (sample_world (\<lambda>argv. Exited 0 [] []) (Finished 0 ''sent'' [])) ''tank'' (sample_config (Some ''secret'') None) []))"
proof -
  have c: "pools (sample_config (Some ''secret'') None) ''tank'' = Some \<lparr>passphrase = Some ''secret'', autobackup_parameters = [''offsite'', ''tank'']\<rparr>"
    by (simp add: sample_config_def)
  have c': "pools (sample_config (Some ''hunter2'') None) ''tank'' = Some (\<lparr>passphrase = Some ''secret'', autobackup_parameters = [''offsite'', ''tank'']\<rparr>\<lparr>passphrase := Some ''hunter2''\<rparr>)"
    by (simp add: sample_config_def)
  have m: "email (sample_config (Some ''hunter2'') None) = email (sample_config (Some ''secret'') None)"
    by (simp add: sample_config_def)
  have k: "proc (sample_world (\<lambda>argv. Exited 0 [] []) (Finished 0 ''sent'' [])) [''zfs'', ''load-key'', ''tank''] (Some ''hunter2'') =
       proc (sample_world (\<lambda>argv. Exited 0 [] []) (Finished 0 ''sent'' [])) [''zfs'', ''load-key'', ''tank''] (Some ''secret'')"
    by (simp add: sample_defs)
  have p: "passphrase \<lparr>passphrase = Some ''secret'', autobackup_parameters = [''offsite'', ''tank'']\<rparr> = Some ''secret''"
    by simp
  have n: "commands (snd (import_decrypt_backup_export (sample_world (\<lambda>argv. Exited 0 [] []) (Finished 0 ''sent'' [])) ''tank'' (sample_config (Some ''secret'') None) [])) =
       [([''zpool'', ''import'', ''tank'', ''-N''], None),
        ([''zfs'', ''load-key'', ''tank''], Some ''secret''),
        ([''zfs'', ''set'', ''readonly=on'', ''tank''], None),
        ([''zpool'', ''export'', ''tank''], None)]"
    by (simp add: commands_run c import_succeeds_def decrypt_passes_def readonly_set_def sample_world_def)
  from passphrase_reaches_only_the_input_of_load_key [OF c, of "sample_world (\<lambda>argv. Exited 0 [] []) (Finished 0 ''sent'' [])"]
  have "\<forall>pass pass' config'.
          passphrase \<lparr>passphrase = Some ''secret'', autobackup_parameters = [''offsite'', ''tank'']\<rparr> = Some pass \<and> pass \<noteq> [] \<and> pass' \<noteq> []
          \<and> pools config' ''tank'' = Some (\<lparr>passphrase = Some ''secret'', autobackup_parameters = [''offsite'', ''tank'']\<rparr>\<lparr>passphrase := Some pass'\<rparr>)
          \<and> email config' = email (sample_config (Some ''secret'') None)
          \<and> proc (sample_world (\<lambda>argv. Exited 0 [] []) (Finished 0 ''sent'' [])) [''zfs'', ''load-key'', ''tank''] (Some pass') =
              proc (sample_world (\<lambda>argv. Exited 0 [] []) (Finished 0 ''sent'' [])) [''zfs'', ''load-key'', ''tank''] (Some pass) \<longrightarrow>
          map redact (snd (import_decrypt_backup_export (sample_world (\<lambda>argv. Exited 0 [] []) (Finished 0 ''sent'' [])) ''tank'' config' [])) =
          map redact (snd (import_decrypt_backup_export (sample_world (\<lambda>argv. Exited 0 [] []) (Finished 0 ''sent'' [])) ''tank'' (sample_config (Some ''secret'') None) []))"
    by (rule conjunct2)
  from this [rule_format, of "''secret''" "''hunter2''" "sample_config (Some ''hunter2'') None"] p c' m k
  have "map redact (snd (import_decrypt_backup_export (sample_world (\<lambda>argv. Exited 0 [] []) (Finished 0 ''sent'' [])) ''tank'' (sample_config (Some ''hunter2'') None) [])) =
       map redact (snd (import_decrypt_backup_export (sample_world (\<lambda>argv. Exited 0 [] []) (Finished 0 ''sent'' [])) ''tank'' (sample_config (Some ''secret'') None) []))"
    by simp
  with c c' m k n show ?thesis by simp
qed

end
